theory Spec2Isabelle
  imports Main
begin

section \<open>Errors (errors.ts)\<close>

text \<open>
  Every \<^verbatim>\<open>throw new PlaywrightHttpError(status, message)\<close> of the sources is a value
  \<open>PlaywrightHttpError status tag\<close>. The message text is kept as a tag, one per throw
  site, carrying the values the template string interpolates.
\<close>

datatype err_msg =
    Required string
      \<comment> \<open>\<^verbatim>\<open>Campo "<field>" e obrigatorio.\<close>\<close>
  | SessionInvalid string
      \<comment> \<open>\<^verbatim>\<open>Campo "<field>" invalido. Use apenas letras, numeros, ponto, underscore e hifen.\<close>\<close>
  | UrlInvalid string
      \<comment> \<open>\<^verbatim>\<open>Campo "<field>" deve conter URL valida.\<close>\<close>
  | DomainBlocked string "string list"
      \<comment> \<open>\<^verbatim>\<open>Dominio bloqueado em "<field>". Permitidos: <allowDomains>\<close>\<close>
  | InvalidAccess string
      \<comment> \<open>\<^verbatim>\<open>Tentativa de acesso invalido em <label>.\<close>\<close>
  | JobIdInvalid
      \<comment> \<open>\<^verbatim>\<open>jobId invalido.\<close>\<close>
  | ScreenshotNameEmpty
      \<comment> \<open>\<^verbatim>\<open>Nome de screenshot nao pode ser vazio.\<close>\<close>
  | ScreenshotNameInvalid
      \<comment> \<open>\<^verbatim>\<open>Nome de screenshot invalido.\<close>\<close>
  | DownloadTimeout int
      \<comment> \<open>\<^verbatim>\<open>Timeout ao baixar uploadFromUrl (<timeoutMs>ms).\<close>\<close>
  | NetworkFailure
      \<comment> \<open>\<^verbatim>\<open>Falha de rede ao baixar uploadFromUrl.\<close>\<close>
  | DownloadHttpStatus nat
      \<comment> \<open>\<^verbatim>\<open>Falha ao baixar uploadFromUrl: HTTP <status>.\<close>\<close>
  | NotImage string
      \<comment> \<open>\<^verbatim>\<open>uploadFromUrl permite apenas image/*, recebido: <contentType>.\<close>\<close>
  | SizeLimit int
      \<comment> \<open>\<^verbatim>\<open>Arquivo em uploadFromUrl excede limite de <maxBytes in MB>MB.\<close>\<close>
  | NoBody
      \<comment> \<open>\<^verbatim>\<open>uploadFromUrl retornou resposta sem body.\<close>\<close>
  | EmptyFile
      \<comment> \<open>\<^verbatim>\<open>uploadFromUrl retornou arquivo vazio.\<close>\<close>
  | UploadFileNotFound string
      \<comment> \<open>\<^verbatim>\<open>Arquivo local nao encontrado para upload: <path>\<close>\<close>
  | ActionTimeout nat string string
      \<comment> \<open>\<^verbatim>\<open>Timeout na action <step> (<action>).\<close>, with the reason of the details\<close>
  | ActionFailed nat string string
      \<comment> \<open>\<^verbatim>\<open>Falha na action <step> (<action>).\<close>, with the reason of the details\<close>
  | MustBeObject string
      \<comment> \<open>\<^verbatim>\<open>Campo "<field>" deve ser objeto.\<close>\<close>
  | MustBeString string
      \<comment> \<open>\<^verbatim>\<open>Campo "<field>" deve ser string.\<close>\<close>
  | MustBeBoolean string
      \<comment> \<open>\<^verbatim>\<open>Campo "<field>" deve ser boolean.\<close>\<close>
  | MustUseHttp string
      \<comment> \<open>\<^verbatim>\<open>Campo "<field>" deve usar http/https.\<close>\<close>
  | NotPositiveInteger string
      \<comment> \<open>\<^verbatim>\<open>Campo "<field>" deve ser inteiro positivo.\<close>\<close>
  | ExceedsLimit string int
      \<comment> \<open>\<^verbatim>\<open>Campo "<field>" excede limite de <maxValue>.\<close>\<close>
  | EnumInvalid string "string list"
      \<comment> \<open>\<^verbatim>\<open>Campo "<field>" invalido. Aceitos: <allowed>\<close>\<close>
  | FieldNotAllowed string string
      \<comment> \<open>\<^verbatim>\<open><path> contem campo nao permitido: "<key>".\<close>\<close>
  | AtLeastOneAction
      \<comment> \<open>\<^verbatim>\<open>Envie pelo menos 1 action em "actions".\<close>\<close>
  | TooManyActions int
      \<comment> \<open>\<^verbatim>\<open>Limite excedido: maximo de <maxActions> actions por job.\<close>\<close>
  | ActionsNotArray
      \<comment> \<open>\<^verbatim>\<open>Campo "actions" deve ser um array.\<close>\<close>
  | ActionInvalid string string
      \<comment> \<open>\<^verbatim>\<open><path>.action invalida: "<actionName>".\<close>\<close>
  | ActionUnsupported string
      \<comment> \<open>\<^verbatim>\<open><path>.action nao suportada.\<close>\<close>
  | WaitForNeedsTarget string
      \<comment> \<open>\<^verbatim>\<open><path>: informe "selector" e/ou "timeoutMs" para waitFor.\<close>\<close>
  | ShortFormInvalid string
      \<comment> \<open>\<^verbatim>\<open><path> deve conter "action" ou formato curto { "acao": { ... } }.\<close>\<close>
  | ShortActionInvalid string string
      \<comment> \<open>\<^verbatim>\<open><path> action curta invalida: "<key>".\<close>\<close>
  | TotalTimeoutBefore string
      \<comment> \<open>\<^verbatim>\<open>Timeout total do job antes da action "<actionName>".\<close>\<close>
  | TotalTimeoutReached
      \<comment> \<open>\<^verbatim>\<open>Timeout total do job atingido.\<close>\<close>

datatype http_error = PlaywrightHttpError (statusCode: nat) (message: err_msg)

text \<open>
  Any other thrown value (an error of the browser, of the network, of the file system)
  is a \<open>raw_error\<close> with its name and message. \<open>thrown\<close> is what a \<^verbatim>\<open>catch\<close> receives.
\<close>

record raw_error =
  err_name :: string
  err_message :: string

datatype thrown = Http http_error | Raw raw_error

section \<open>Strings\<close>

text \<open>
  A string is a list of 8-bit code units. \<open>trim\<close> removes the white space and line
  terminators of that range. \<open>toLowerCase\<close> maps the ASCII capitals and leaves every other
  code unit as it is; it is applied to host names of parsed URLs, to sanitized file names,
  and to a header and an error message that are searched for ASCII words.
\<close>

definition js_whitespace :: "char \<Rightarrow> bool" where
  "js_whitespace c =
     (c \<in> {CHR 0x09, CHR 0x0A, CHR 0x0B, CHR 0x0C, CHR 0x0D, CHR 0x20, CHR 0xA0})"

definition trim :: "string \<Rightarrow> string" where
  "trim s = rev (dropWhile js_whitespace (rev (dropWhile js_whitespace s)))"

definition lower_char :: "char \<Rightarrow> char" where
  "lower_char c =
     (case map_of (zip ''ABCDEFGHIJKLMNOPQRSTUVWXYZ'' ''abcdefghijklmnopqrstuvwxyz'') c of
        Some l \<Rightarrow> l
      | None \<Rightarrow> c)"

definition toLowerCase :: "string \<Rightarrow> string" where
  "toLowerCase s = map lower_char s"

definition endsWith :: "string \<Rightarrow> string \<Rightarrow> bool" where
  "endsWith s t = (length t \<le> length s \<and> drop (length s - length t) s = t)"

definition startsWith :: "string \<Rightarrow> string \<Rightarrow> bool" where
  "startsWith s t = (take (length t) s = t)"

text \<open>\<^verbatim>\<open>s.split(c)\<close> and \<^verbatim>\<open>xs.join(sep)\<close>.\<close>

fun split_on :: "char \<Rightarrow> string \<Rightarrow> string list" where
  "split_on c [] = [[]]"
| "split_on c (x # xs) =
     (if x = c then [] # split_on c xs
      else (case split_on c xs of s # ss \<Rightarrow> (x # s) # ss | [] \<Rightarrow> [[x]]))"

fun join :: "string \<Rightarrow> string list \<Rightarrow> string" where
  "join sep [] = []"
| "join sep [x] = x"
| "join sep (x # y # ys) = x @ sep @ join sep (y # ys)"

text \<open>The decimal digits of a natural number, as a template string writes a counter.\<close>

fun show_nat :: "nat \<Rightarrow> string" where
  "show_nat n =
     (if n < 10 then [''0123456789'' ! n]
      else show_nat (n div 10) @ [''0123456789'' ! (n mod 10)])"

declare show_nat.simps [simp del]

definition andThen :: "'e + 'a \<Rightarrow> ('a \<Rightarrow> 'e + 'b) \<Rightarrow> 'e + 'b" where
  "andThen m f = (case m of Inl e \<Rightarrow> Inl e | Inr x \<Rightarrow> f x)"

text \<open>The character class \<^verbatim>\<open>[a-zA-Z0-9._-]\<close> of the session and file name patterns.\<close>

definition safe_char :: "char \<Rightarrow> bool" where
  "safe_char c =
     (c \<in> set ''abcdefghijklmnopqrstuvwxyzABCDEFGHIJKLMNOPQRSTUVWXYZ0123456789._-'')"

text \<open>\<^verbatim>\<open>/^[a-zA-Z0-9._-]{1,64}$/.test(s)\<close>\<close>

definition session_regex :: "string \<Rightarrow> bool" where
  "session_regex s = (1 \<le> length s \<and> length s \<le> 64 \<and> list_all safe_char s)"

section \<open>Values of a request body\<close>

text \<open>
  The body is a parsed JSON value. The validators only ask of a number whether it is a
  positive integer below a bound, so a number is an integer or \<open>NonInteger\<close>, which stands
  for every other number (a fraction, \<^verbatim>\<open>NaN\<close>, an infinity). An object is the list
  of its own properties in the order of \<^verbatim>\<open>Object.keys\<close>; a property that is absent reads
  as \<^verbatim>\<open>undefined\<close>, here \<open>None\<close>.
\<close>

datatype js_number = Integer int | NonInteger

datatype json =
    JNull
  | JBool bool
  | JNum js_number
  | JStr string
  | JArr "json list"
  | JObj "(string \<times> json) list"

section \<open>The platform\<close>

text \<open>
  The URL constructor of the runtime is not code of this repository. It is a parameter
  \<open>newURL\<close> of the functions that call it: \<open>None\<close> is the \<^verbatim>\<open>TypeError\<close> of
  \<^verbatim>\<open>new URL(s)\<close>, \<open>Some u\<close> the parsed URL with the three fields the sources read.
\<close>

record js_url =
  protocol :: string
  hostname :: string
  pathname :: string

type_synonym url_ctor = "string \<Rightarrow> js_url option"

text \<open>
  The validators also coerce values of any type with \<^verbatim>\<open>String(v)\<close> and \<^verbatim>\<open>Number(v)\<close>.
  On a string, \<^verbatim>\<open>String\<close> is the identity, and on a number \<^verbatim>\<open>Number\<close> is; what the
  runtime gives on the other values is the parameter \<open>js_String\<close>, \<open>js_Number\<close>.
\<close>

record runtime =
  js_URL :: url_ctor
  js_String :: "json \<Rightarrow> string"
  js_Number :: "json \<Rightarrow> js_number"

definition toString :: "runtime \<Rightarrow> json \<Rightarrow> string" where
  "toString rt v = (case v of JStr s \<Rightarrow> s | _ \<Rightarrow> js_String rt v)"

definition toNumber :: "runtime \<Rightarrow> json option \<Rightarrow> js_number" where
  "toNumber rt v =
     (case v of
        None \<Rightarrow> NonInteger \<comment> \<open>\<^verbatim>\<open>Number(undefined)\<close> is \<^verbatim>\<open>NaN\<close>\<close>
      | Some (JNum n) \<Rightarrow> n
      | Some w \<Rightarrow> js_Number rt w)"

text \<open>
  One URL constructor to run the functions on concrete inputs: it reads the shape
  \<^verbatim>\<open>scheme://host[:port][/path][?query][#fragment]\<close>, lower-cases scheme and host as the
  runtime does, and fails on every other string.
\<close>

definition scheme_char :: "char \<Rightarrow> bool" where
  "scheme_char c =
     (c \<in> set ''abcdefghijklmnopqrstuvwxyzABCDEFGHIJKLMNOPQRSTUVWXYZ0123456789+-.'')"

definition plain_url :: url_ctor where
  "plain_url s =
     (let scheme = takeWhile (\<lambda>c. c \<noteq> CHR '':'') s;
          rest = dropWhile (\<lambda>c. c \<noteq> CHR '':'') s
      in if scheme = [] \<or> \<not> list_all scheme_char scheme \<or> take 3 rest \<noteq> ''://'' then None
         else
           let after = drop 3 rest;
               authority = takeWhile (\<lambda>c. c \<notin> set ''/?#'') after;
               tail = dropWhile (\<lambda>c. c \<notin> set ''/?#'') after;
               host = takeWhile (\<lambda>c. c \<noteq> CHR '':'') authority;
               path = takeWhile (\<lambda>c. c \<notin> set ''?#'') tail
           in if host = [] \<or> \<not> list_all safe_char host then None
              else Some \<lparr>protocol = toLowerCase scheme @ '':'',
                         hostname = toLowerCase host,
                         pathname = (if path = [] then ''/'' else path)\<rparr>)"

definition plain_runtime :: runtime where
  "plain_runtime =
     \<lparr>js_URL = plain_url,
      js_String = (\<lambda>v. case v of JNull \<Rightarrow> ''null'' | JBool b \<Rightarrow> (if b then ''true'' else ''false'')
                        | _ \<Rightarrow> ''[object Object]''),
      js_Number = (\<lambda>v. case v of JNull \<Rightarrow> Integer 0 | JBool b \<Rightarrow> Integer (if b then 1 else 0)
                        | _ \<Rightarrow> NonInteger)\<rparr>"

section \<open>Actions and requests (types.ts)\<close>

datatype action =
    Goto string "string option"
      \<comment> \<open>url, waitUntil\<close>
  | Click string "int option"
      \<comment> \<open>selector, delayMs\<close>
  | Fill string string
      \<comment> \<open>selector, text\<close>
  | Press string string
      \<comment> \<open>selector, key\<close>
  | WaitFor "string option" "string option" "int option"
      \<comment> \<open>selector, state, timeoutMs\<close>
  | Upload string string
      \<comment> \<open>selector, path\<close>
  | UploadFromUrl string string
      \<comment> \<open>selector, url\<close>
  | Screenshot string "bool option"
      \<comment> \<open>name, fullPage\<close>
  | ExtractText string string
      \<comment> \<open>selector, key\<close>
  | ExtractAttr string string string
      \<comment> \<open>selector, attr, key\<close>
  | SaveStorage string
      \<comment> \<open>session\<close>
  | Evaluate string "json option" "string option"
      \<comment> \<open>script, arg, key\<close>

text \<open>The field \<^verbatim>\<open>action\<close> of an action.\<close>

fun action_tag :: "action \<Rightarrow> string" where
  "action_tag (Goto _ _) = ''goto''"
| "action_tag (Click _ _) = ''click''"
| "action_tag (Fill _ _) = ''fill''"
| "action_tag (Press _ _) = ''press''"
| "action_tag (WaitFor _ _ _) = ''waitFor''"
| "action_tag (Upload _ _) = ''upload''"
| "action_tag (UploadFromUrl _ _) = ''uploadFromUrl''"
| "action_tag (Screenshot _ _) = ''screenshot''"
| "action_tag (ExtractText _ _) = ''extractText''"
| "action_tag (ExtractAttr _ _ _) = ''extractAttr''"
| "action_tag (SaveStorage _) = ''saveStorage''"
| "action_tag (Evaluate _ _ _) = ''evaluate''"

record proxy_settings =
  proxy_server :: string
  proxy_username :: "string option"
  proxy_password :: "string option"

record viewport_size =
  vp_width :: int
  vp_height :: int

record PlaywrightRunRequest =
  req_session :: "string option"
  req_timeoutMs :: int
  req_proxy :: "proxy_settings option"
  req_blockResources :: "string list option"
  req_userAgent :: "string option"
  req_viewport :: "viewport_size option"
  req_actions :: "action list"

section \<open>Validators (validators.ts)\<close>

definition WAIT_UNTIL_VALUES :: "string list" where
  "WAIT_UNTIL_VALUES = [''load'', ''domcontentloaded'', ''networkidle'', ''commit'']"

definition WAIT_FOR_STATE_VALUES :: "string list" where
  "WAIT_FOR_STATE_VALUES = [''attached'', ''detached'', ''visible'', ''hidden'']"

definition ACTION_NAMES :: "string list" where
  "ACTION_NAMES =
     [''goto'', ''click'', ''fill'', ''press'', ''waitFor'', ''upload'', ''uploadFromUrl'',
      ''screenshot'', ''extractText'', ''extractAttr'', ''saveStorage'']"

definition validateSessionName :: "json option \<Rightarrow> string \<Rightarrow> http_error + string" where
  "validateSessionName v fieldName =
     (case v of
        Some (JStr s) \<Rightarrow>
          if trim s = [] then Inl (PlaywrightHttpError 400 (Required fieldName))
          else
            let session = trim s in
            if \<not> session_regex session
              then Inl (PlaywrightHttpError 400 (SessionInvalid fieldName))
            else Inr session
      | _ \<Rightarrow> Inl (PlaywrightHttpError 400 (Required fieldName)))"

definition assertAllowedDomain :: "url_ctor \<Rightarrow> string \<Rightarrow> string list \<Rightarrow> string \<Rightarrow> http_error + unit" where
  "assertAllowedDomain newURL urlValue allowDomains fieldName =
     (if length allowDomains = 0 then Inr ()
      else
        case newURL urlValue of
          None \<Rightarrow> Inl (PlaywrightHttpError 400 (UrlInvalid fieldName))
        | Some parsed \<Rightarrow>
            let host = toLowerCase (hostname parsed);
                isAllowed =
                  list_ex (\<lambda>domain. host = domain \<or> endsWith host (''.'' @ domain)) allowDomains
            in if \<not> isAllowed
                 then Inl (PlaywrightHttpError 400 (DomainBlocked fieldName allowDomains))
               else Inr ())"

definition parseOptionalSession :: "json option \<Rightarrow> http_error + string option" where
  "parseOptionalSession v =
     (if v = None \<or> v = Some JNull \<or> v = Some (JStr []) then Inr None
      else andThen (validateSessionName v ''session'') (\<lambda>s. Inr (Some s)))"

definition requireObject :: "json option \<Rightarrow> string \<Rightarrow> http_error + (string \<times> json) list" where
  "requireObject v fieldName =
     (case v of
        Some (JObj props) \<Rightarrow> Inr props
      | _ \<Rightarrow> Inl (PlaywrightHttpError 400 (MustBeObject fieldName)))"

definition requireNonEmptyString :: "json option \<Rightarrow> string \<Rightarrow> http_error + string" where
  "requireNonEmptyString v fieldName =
     (case v of
        Some (JStr s) \<Rightarrow>
          if trim s = [] then Inl (PlaywrightHttpError 400 (Required fieldName))
          else Inr (trim s)
      | _ \<Rightarrow> Inl (PlaywrightHttpError 400 (Required fieldName)))"

definition requireString :: "json option \<Rightarrow> string \<Rightarrow> http_error + string" where
  "requireString v fieldName =
     (case v of
        Some (JStr s) \<Rightarrow> Inr s
      | _ \<Rightarrow> Inl (PlaywrightHttpError 400 (MustBeString fieldName)))"

definition assertOnlyAllowedKeys ::
    "(string \<times> json) list \<Rightarrow> string list \<Rightarrow> string \<Rightarrow> http_error + unit" where
  "assertOnlyAllowedKeys props allowedKeys fieldName =
     (case filter (\<lambda>key. key \<notin> set allowedKeys) (map fst props) of
        [] \<Rightarrow> Inr ()
      | key # _ \<Rightarrow> Inl (PlaywrightHttpError 400 (FieldNotAllowed fieldName key)))"

definition requireHttpUrl :: "runtime \<Rightarrow> json option \<Rightarrow> string \<Rightarrow> http_error + string" where
  "requireHttpUrl rt v fieldName =
     andThen (requireNonEmptyString v fieldName) (\<lambda>url.
       case js_URL rt url of
         None \<Rightarrow> Inl (PlaywrightHttpError 400 (UrlInvalid fieldName))
       | Some parsed \<Rightarrow>
           if protocol parsed \<noteq> ''http:'' \<and> protocol parsed \<noteq> ''https:''
             then Inl (PlaywrightHttpError 400 (MustUseHttp fieldName))
           else Inr url)"

definition parsePositiveInteger :: "runtime \<Rightarrow> json option \<Rightarrow> string \<Rightarrow> int \<Rightarrow> http_error + int" where
  "parsePositiveInteger rt v fieldName maxValue =
     (case toNumber rt v of
        NonInteger \<Rightarrow> Inl (PlaywrightHttpError 400 (NotPositiveInteger fieldName))
      | Integer parsed \<Rightarrow>
          if parsed \<le> 0 then Inl (PlaywrightHttpError 400 (NotPositiveInteger fieldName))
          else if parsed > maxValue
            then Inl (PlaywrightHttpError 400 (ExceedsLimit fieldName maxValue))
          else Inr parsed)"

definition parseOptionalPositiveInteger ::
    "runtime \<Rightarrow> json option \<Rightarrow> string \<Rightarrow> int \<Rightarrow> http_error + int option" where
  "parseOptionalPositiveInteger rt v fieldName maxValue =
     (if v = None \<or> v = Some JNull \<or> v = Some (JStr []) then Inr None
      else andThen (parsePositiveInteger rt v fieldName maxValue) (\<lambda>n. Inr (Some n)))"

definition parseTimeoutMs :: "runtime \<Rightarrow> json option \<Rightarrow> int \<Rightarrow> http_error + int" where
  "parseTimeoutMs rt v defaultValue =
     (if v = None \<or> v = Some JNull \<or> v = Some (JStr []) then Inr defaultValue
      else parsePositiveInteger rt v ''timeoutMs'' 600000)"

definition parseOptionalEnum ::
    "runtime \<Rightarrow> json option \<Rightarrow> string list \<Rightarrow> string \<Rightarrow> http_error + string option" where
  "parseOptionalEnum rt v allowed fieldName =
     (case v of
        None \<Rightarrow> Inr None
      | Some w \<Rightarrow>
          if w = JNull \<or> w = JStr [] then Inr None
          else
            let parsed = toString rt w in
            if parsed \<notin> set allowed
              then Inl (PlaywrightHttpError 400 (EnumInvalid fieldName allowed))
            else Inr (Some parsed))"

definition parseOptionalBoolean :: "json option \<Rightarrow> string \<Rightarrow> http_error + bool option" where
  "parseOptionalBoolean v fieldName =
     (case v of
        None \<Rightarrow> Inr None
      | Some w \<Rightarrow>
          if w = JNull \<or> w = JStr [] then Inr None
          else (case w of
                  JBool b \<Rightarrow> Inr (Some b)
                | _ \<Rightarrow> Inl (PlaywrightHttpError 400 (MustBeBoolean fieldName))))"

text \<open>
  The short form \<^verbatim>\<open>{ "<name>": { ...fields } }\<close> becomes \<^verbatim>\<open>{ action: key, ...nestedObject }\<close>:
  a property \<^verbatim>\<open>action\<close> of the nested object replaces the value of the one written first.
  The keys of an object are distinct; their order only decides which unknown key
  \<open>assertOnlyAllowedKeys\<close> names in its error.
\<close>

definition normalizeActionObject :: "json option \<Rightarrow> string \<Rightarrow> http_error + (string \<times> json) list" where
  "normalizeActionObject v fieldName =
     andThen (requireObject v fieldName) (\<lambda>raw.
       case map_of raw ''action'' of
         Some (JStr _) \<Rightarrow> Inr raw
       | _ \<Rightarrow>
           let keys = map fst raw in
           if length keys \<noteq> 1
             then Inl (PlaywrightHttpError 400 (ShortFormInvalid fieldName))
           else
             let key = hd keys; nested = map_of raw key in
             if key \<notin> set ACTION_NAMES
               then Inl (PlaywrightHttpError 400 (ShortActionInvalid fieldName key))
             else
               andThen (requireObject nested (fieldName @ ''.'' @ key)) (\<lambda>nestedObject.
                 Inr ((''action'', case map_of nestedObject ''action'' of
                                      None \<Rightarrow> JStr key
                                    | Some a \<Rightarrow> a)
                      # filter (\<lambda>(k, _). k \<noteq> ''action'') nestedObject)))"

definition parseAction :: "runtime \<Rightarrow> json \<Rightarrow> nat \<Rightarrow> string list \<Rightarrow> http_error + action" where
  "parseAction rt rawAction index allowDomains =
     (let actionPath = ''actions['' @ show_nat index @ '']'' in
      andThen (normalizeActionObject (Some rawAction) actionPath) (\<lambda>normalized.
        let actionName = (case map_of normalized ''action'' of
                            Some a \<Rightarrow> toString rt a
                          | None \<Rightarrow> ''undefined'');
            field = map_of normalized
        in
        if actionName \<notin> set ACTION_NAMES
          then Inl (PlaywrightHttpError 400 (ActionInvalid actionPath actionName))
        else if actionName = ''goto'' then
          andThen (assertOnlyAllowedKeys normalized [''action'', ''url'', ''waitUntil''] actionPath) (\<lambda>_.
          andThen (requireHttpUrl rt (field ''url'') (actionPath @ ''.url'')) (\<lambda>url.
          andThen (assertAllowedDomain (js_URL rt) url allowDomains (actionPath @ ''.url'')) (\<lambda>_.
          andThen (parseOptionalEnum rt (field ''waitUntil'') WAIT_UNTIL_VALUES
                     (actionPath @ ''.waitUntil'')) (\<lambda>waitUntil.
          Inr (Goto url waitUntil)))))
        else if actionName = ''click'' then
          andThen (assertOnlyAllowedKeys normalized [''action'', ''selector'', ''delayMs''] actionPath) (\<lambda>_.
          andThen (requireNonEmptyString (field ''selector'') (actionPath @ ''.selector'')) (\<lambda>selector.
          andThen (parseOptionalPositiveInteger rt (field ''delayMs'') (actionPath @ ''.delayMs'')
                     10000) (\<lambda>delayMs.
          Inr (Click selector delayMs))))
        else if actionName = ''fill'' then
          andThen (assertOnlyAllowedKeys normalized [''action'', ''selector'', ''text''] actionPath) (\<lambda>_.
          andThen (requireNonEmptyString (field ''selector'') (actionPath @ ''.selector'')) (\<lambda>selector.
          andThen (requireString (field ''text'') (actionPath @ ''.text'')) (\<lambda>text.
          Inr (Fill selector text))))
        else if actionName = ''press'' then
          andThen (assertOnlyAllowedKeys normalized [''action'', ''selector'', ''key''] actionPath) (\<lambda>_.
          andThen (requireNonEmptyString (field ''selector'') (actionPath @ ''.selector'')) (\<lambda>selector.
          andThen (requireNonEmptyString (field ''key'') (actionPath @ ''.key'')) (\<lambda>key.
          Inr (Press selector key))))
        else if actionName = ''waitFor'' then
          andThen (assertOnlyAllowedKeys normalized
                     [''action'', ''selector'', ''state'', ''timeoutMs''] actionPath) (\<lambda>_.
          andThen (if field ''selector'' = None \<or> field ''selector'' = Some JNull
                      \<or> field ''selector'' = Some (JStr [])
                   then Inr None
                   else andThen (requireNonEmptyString (field ''selector'')
                                   (actionPath @ ''.selector'')) (\<lambda>s. Inr (Some s))) (\<lambda>selector.
          andThen (parseOptionalEnum rt (field ''state'') WAIT_FOR_STATE_VALUES
                     (actionPath @ ''.state'')) (\<lambda>state.
          andThen (parseOptionalPositiveInteger rt (field ''timeoutMs'')
                     (actionPath @ ''.timeoutMs'') 120000) (\<lambda>timeoutMs.
          if selector = None \<and> timeoutMs = None
            then Inl (PlaywrightHttpError 400 (WaitForNeedsTarget actionPath))
          else Inr (WaitFor selector state timeoutMs)))))
        else if actionName = ''upload'' then
          andThen (assertOnlyAllowedKeys normalized [''action'', ''selector'', ''path''] actionPath) (\<lambda>_.
          andThen (requireNonEmptyString (field ''selector'') (actionPath @ ''.selector'')) (\<lambda>selector.
          andThen (requireNonEmptyString (field ''path'') (actionPath @ ''.path'')) (\<lambda>localPath.
          Inr (Upload selector localPath))))
        else if actionName = ''uploadFromUrl'' then
          andThen (assertOnlyAllowedKeys normalized [''action'', ''selector'', ''url''] actionPath) (\<lambda>_.
          andThen (requireNonEmptyString (field ''selector'') (actionPath @ ''.selector'')) (\<lambda>selector.
          andThen (requireHttpUrl rt (field ''url'') (actionPath @ ''.url'')) (\<lambda>url.
          andThen (assertAllowedDomain (js_URL rt) url allowDomains (actionPath @ ''.url'')) (\<lambda>_.
          Inr (UploadFromUrl selector url)))))
        else if actionName = ''screenshot'' then
          andThen (assertOnlyAllowedKeys normalized [''action'', ''name'', ''fullPage''] actionPath) (\<lambda>_.
          andThen (requireNonEmptyString (field ''name'') (actionPath @ ''.name'')) (\<lambda>name.
          andThen (parseOptionalBoolean (field ''fullPage'') (actionPath @ ''.fullPage'')) (\<lambda>fullPage.
          Inr (Screenshot name fullPage))))
        else if actionName = ''extractText'' then
          andThen (assertOnlyAllowedKeys normalized [''action'', ''selector'', ''key''] actionPath) (\<lambda>_.
          andThen (requireNonEmptyString (field ''selector'') (actionPath @ ''.selector'')) (\<lambda>selector.
          andThen (requireNonEmptyString (field ''key'') (actionPath @ ''.key'')) (\<lambda>key.
          Inr (ExtractText selector key))))
        else if actionName = ''extractAttr'' then
          andThen (assertOnlyAllowedKeys normalized
                     [''action'', ''selector'', ''attr'', ''key''] actionPath) (\<lambda>_.
          andThen (requireNonEmptyString (field ''selector'') (actionPath @ ''.selector'')) (\<lambda>selector.
          andThen (requireNonEmptyString (field ''attr'') (actionPath @ ''.attr'')) (\<lambda>attr.
          andThen (requireNonEmptyString (field ''key'') (actionPath @ ''.key'')) (\<lambda>key.
          Inr (ExtractAttr selector attr key)))))
        else if actionName = ''saveStorage'' then
          andThen (assertOnlyAllowedKeys normalized [''action'', ''session''] actionPath) (\<lambda>_.
          andThen (validateSessionName (field ''session'') (actionPath @ ''.session'')) (\<lambda>session.
          Inr (SaveStorage session)))
        else Inl (PlaywrightHttpError 400 (ActionUnsupported actionPath))))"

fun parseActions :: "runtime \<Rightarrow> string list \<Rightarrow> nat \<Rightarrow> json list \<Rightarrow> http_error + action list" where
  "parseActions rt allowDomains index [] = Inr []"
| "parseActions rt allowDomains index (rawAction # rest) =
     andThen (parseAction rt rawAction index allowDomains) (\<lambda>a.
     andThen (parseActions rt allowDomains (index + 1) rest) (\<lambda>as.
     Inr (a # as)))"

definition resolveActionsArray :: "(string \<times> json) list \<Rightarrow> http_error + json list" where
  "resolveActionsArray payload =
     (case map_of payload ''actions'' of
        Some (JArr actions) \<Rightarrow> Inr actions
      | _ \<Rightarrow>
          (case map_of payload ''commands'' of
             Some (JArr commands) \<Rightarrow> Inr commands
           | _ \<Rightarrow> Inl (PlaywrightHttpError 400 ActionsNotArray)))"

record parse_options =
  opt_maxActions :: int
  opt_defaultTimeoutMs :: int
  opt_allowDomains :: "string list"

definition parseRunRequestBody ::
    "runtime \<Rightarrow> json option \<Rightarrow> parse_options \<Rightarrow> http_error + PlaywrightRunRequest" where
  "parseRunRequestBody rt body options =
     andThen (requireObject body ''body'') (\<lambda>payload.
     andThen (parseOptionalSession (map_of payload ''session'')) (\<lambda>session.
     andThen (parseTimeoutMs rt (map_of payload ''timeoutMs'') (opt_defaultTimeoutMs options)) (\<lambda>timeoutMs.
     andThen (resolveActionsArray payload) (\<lambda>actionsRaw.
       if length actionsRaw = 0 then Inl (PlaywrightHttpError 400 AtLeastOneAction)
       else if int (length actionsRaw) > opt_maxActions options
         then Inl (PlaywrightHttpError 400 (TooManyActions (opt_maxActions options)))
       else
         andThen (parseActions rt (opt_allowDomains options) 0 actionsRaw) (\<lambda>actions.
           Inr \<lparr>req_session = session, req_timeoutMs = timeoutMs, req_proxy = None,
                req_blockResources = None, req_userAgent = None, req_viewport = None,
                req_actions = actions\<rparr>)))))"

section \<open>Paths\<close>

text \<open>
  \<^verbatim>\<open>path.resolve\<close> of the POSIX runtime (the service runs in a Linux container), with
  the working directory \<open>cwd\<close>, an absolute path, as an argument. The arguments are read
  from the right until an absolute one is met, empty ones are skipped, the working
  directory is put in front when none is absolute; the segments are then normalized:
  empty and \<^verbatim>\<open>.\<close> segments are dropped and \<^verbatim>\<open>..\<close> removes the segment before it, if any.
\<close>

definition normalize_step :: "string list \<Rightarrow> string \<Rightarrow> string list" where
  "normalize_step res seg =
     (if seg = [] \<or> seg = ''.'' then res
      else if seg = ''..'' then butlast res
      else res @ [seg])"

fun resolve_concat :: "string \<Rightarrow> string list \<Rightarrow> string \<Rightarrow> string" where
  "resolve_concat cwd [] resolvedPath = cwd @ ''/'' @ resolvedPath"
| "resolve_concat cwd (p # ps) resolvedPath =
     (if p = [] then resolve_concat cwd ps resolvedPath
      else if hd p = CHR ''/'' then p @ ''/'' @ resolvedPath
      else resolve_concat cwd ps (p @ ''/'' @ resolvedPath))"

definition path_resolve :: "string \<Rightarrow> string list \<Rightarrow> string" where
  "path_resolve cwd args =
     ''/'' @ join ''/''
       (foldl normalize_step [] (split_on CHR ''/'' (resolve_concat cwd (rev args) [])))"

text \<open>A plain segment: a name that is neither empty nor a dot segment and holds no separator.\<close>

definition plain_segment :: "string \<Rightarrow> bool" where
  "plain_segment f = (f \<noteq> [] \<and> f \<noteq> ''.'' \<and> f \<noteq> ''..'' \<and> CHR ''/'' \<notin> set f)"

text \<open>
  \<^verbatim>\<open>path.basename\<close> and \<^verbatim>\<open>path.extname\<close>: the last component of a path, trailing
  separators apart, and its extension, from the last dot on; a name with no dot, a name
  whose only dot comes first, and \<^verbatim>\<open>..\<close> have none. \<^verbatim>\<open>path.join\<close> is given for a first
  argument that is absolute and a second that does not end with a separator.
\<close>

definition path_basename :: "string \<Rightarrow> string" where
  "path_basename p =
     (let q = dropWhile (\<lambda>c. c = CHR ''/'') (rev p)
      in rev (takeWhile (\<lambda>c. c \<noteq> CHR ''/'') q))"

definition path_extname :: "string \<Rightarrow> string" where
  "path_extname p =
     (let b = path_basename p in
      if CHR ''.'' \<notin> set b then []
      else
        let ext = CHR ''.'' # rev (takeWhile (\<lambda>c. c \<noteq> CHR ''.'') (rev b));
            pre = take (length b - length ext) b
        in if pre = [] \<or> b = ''..'' then [] else ext)"

definition path_join :: "string \<Rightarrow> string \<Rightarrow> string" where
  "path_join dir name =
     ''/'' @ join ''/'' (foldl normalize_step [] (split_on CHR ''/'' (dir @ ''/'' @ name)))"

section \<open>Storage (storage.ts)\<close>

text \<open>
  \<open>sanitizeArtifactFilename\<close>: the chain of \<^verbatim>\<open>replace\<close> calls turns each run of white
  space into one hyphen, each character outside \<^verbatim>\<open>[a-zA-Z0-9._-]\<close> into an underscore,
  squeezes runs of underscores and of hyphens, and strips \<^verbatim>\<open>-\<close>, \<^verbatim>\<open>_\<close> and \<^verbatim>\<open>.\<close> from both
  ends.
\<close>

fun ws_runs_to_dash :: "string \<Rightarrow> string" where
  "ws_runs_to_dash [] = []"
| "ws_runs_to_dash [x] = [if js_whitespace x then CHR ''-'' else x]"
| "ws_runs_to_dash (x # y # ys) =
     (if js_whitespace x \<and> js_whitespace y then ws_runs_to_dash (y # ys)
      else (if js_whitespace x then CHR ''-'' else x) # ws_runs_to_dash (y # ys))"

fun squeeze :: "char \<Rightarrow> string \<Rightarrow> string" where
  "squeeze c [] = []"
| "squeeze c [x] = [x]"
| "squeeze c (x # y # ys) =
     (if x = c \<and> y = c then squeeze c (y # ys) else x # squeeze c (y # ys))"

definition edge_char :: "char \<Rightarrow> bool" where
  "edge_char c = (c \<in> set ''-_.'')"

definition strip_edges :: "string \<Rightarrow> string" where
  "strip_edges s = rev (dropWhile edge_char (rev (dropWhile edge_char s)))"

definition SAFE_FILENAME_REGEX :: "string \<Rightarrow> bool" where
  "SAFE_FILENAME_REGEX s = (s \<noteq> [] \<and> list_all safe_char s)"

definition sanitizeArtifactFilename :: "string \<Rightarrow> http_error + string" where
  "sanitizeArtifactFilename name =
     (let trimmed = trim name in
      if trimmed = [] then Inl (PlaywrightHttpError 400 ScreenshotNameEmpty)
      else
        let collapsed =
              strip_edges
                (squeeze CHR ''-''
                  (squeeze CHR ''_''
                    (map (\<lambda>c. if safe_char c then c else CHR ''_'') (ws_runs_to_dash trimmed))));
            base = (if collapsed = [] then ''screenshot'' else collapsed);
            withPng = (if endsWith (toLowerCase base) ''.png'' then base else base @ ''.png'')
        in if \<not> SAFE_FILENAME_REGEX withPng then Inl (PlaywrightHttpError 400 ScreenshotNameInvalid)
           else Inr withPng)"

definition resolveInsideRoot :: "string \<Rightarrow> string \<Rightarrow> string \<Rightarrow> string \<Rightarrow> http_error + string" where
  "resolveInsideRoot cwd rootDir targetPath label =
     (let rootResolved = path_resolve cwd [rootDir];
          resolved = path_resolve cwd [rootDir, targetPath]
      in if resolved = rootResolved then Inr resolved
         else if \<not> startsWith resolved (rootResolved @ ''/'')
           then Inl (PlaywrightHttpError 400 (InvalidAccess label))
         else Inr resolved)"

definition getSessionStatePath :: "string \<Rightarrow> string \<Rightarrow> string \<Rightarrow> http_error + string" where
  "getSessionStatePath cwd storageDir session =
     (case validateSessionName (Some (JStr session)) ''session'' of
        Inl e \<Rightarrow> Inl e
      | Inr safeSession \<Rightarrow>
          let fileName = safeSession @ ''.json'' in
          resolveInsideRoot cwd storageDir fileName ''session file'')"

definition resolveLocalUploadPath :: "string \<Rightarrow> string \<Rightarrow> string" where
  "resolveLocalUploadPath cwd filePath =
     (let absolutePath = path_resolve cwd [filePath] in absolutePath)"

section \<open>The job deadline (runner.ts)\<close>

text \<open>
  Times are milliseconds as \<open>int\<close>: \<^verbatim>\<open>Date.now()\<close> is an integer and the deadline is
  \<^verbatim>\<open>startedAt + request.timeoutMs\<close>, with \<^verbatim>\<open>timeoutMs\<close> an integer. The reading of the
  clock that each function makes is its argument \<open>now\<close>.
\<close>

definition ensureTimeRemaining :: "int \<Rightarrow> int \<Rightarrow> string \<Rightarrow> http_error + unit" where
  "ensureTimeRemaining deadline now actionName =
     (let remaining = deadline - now in
      if remaining \<le> 0 then Inl (PlaywrightHttpError 408 (TotalTimeoutBefore actionName))
      else Inr ())"

definition resolveStepTimeout :: "int \<Rightarrow> int \<Rightarrow> int option \<Rightarrow> http_error + int" where
  "resolveStepTimeout deadline now requestedTimeoutMs =
     (let remaining = deadline - now in
      if remaining \<le> 0 then Inl (PlaywrightHttpError 408 TotalTimeoutReached)
      else case requestedTimeoutMs of
             None \<Rightarrow> Inr remaining
           | Some r \<Rightarrow> Inr (max 1 (min r remaining)))"

section \<open>Unique file names (runner.ts)\<close>

text \<open>
  The loop of \<open>resolveUniqueFileName\<close> asks the file system whether the candidate is a
  regular file of the output directory; \<open>files\<close> lists the names of the regular files
  there. The loop ends because the candidates \<^verbatim>\<open><base>-<counter><ext>\<close> differ from one
  another and the directory holds finitely many names.
\<close>

text \<open>\<open>parse_digits\<close> reads a number back from its digits, so \<open>show_nat\<close> is injective.\<close>

definition digit_value :: "char \<Rightarrow> nat option" where
  "digit_value c = map_of (zip ''0123456789'' [0, 1, 2, 3, 4, 5, 6, 7, 8, 9]) c"

definition parse_digits :: "string \<Rightarrow> nat" where
  "parse_digits s = foldl (\<lambda>a c. 10 * a + (case digit_value c of Some d \<Rightarrow> d | None \<Rightarrow> 0)) 0 s"

lemma digit_value_nth: "n < 10 \<Longrightarrow> digit_value (''0123456789'' ! n) = Some n"
proof -
  assume "n < 10"
  then have "n \<in> {0, 1, 2, 3, 4, 5, 6, 7, 8, 9}" by auto
  then show ?thesis by (auto simp: digit_value_def)
qed

lemma parse_digits_show_nat: "parse_digits (show_nat n) = n"
proof (induction n rule: show_nat.induct)
  case (1 n)
  show ?case
  proof (cases "n < 10")
    case True
    then show ?thesis
      by (simp add: show_nat.simps [of n] parse_digits_def digit_value_nth)
  next
    case False
    then have "parse_digits (show_nat (n div 10)) = n div 10" using 1 by simp
    then show ?thesis
      using False by (simp add: show_nat.simps [of n] parse_digits_def digit_value_nth)
  qed
qed

lemma show_nat_inj: "show_nat m = show_nat n \<Longrightarrow> m = n"
  using parse_digits_show_nat by metis

lemma finite_taken_names:
  "finite {c. k \<le> c \<and> b @ ''-'' @ show_nat c @ e \<in> set files}"
proof -
  have "inj (\<lambda>c. b @ ''-'' @ show_nat c @ e)"
    by (auto simp: inj_def dest: show_nat_inj)
  then have "finite ((\<lambda>c. b @ ''-'' @ show_nat c @ e) -` set files)"
    by (simp add: finite_vimageI)
  then show ?thesis
    by (rule rev_finite_subset) auto
qed

function unique_loop :: "string list \<Rightarrow> string \<Rightarrow> string \<Rightarrow> string \<Rightarrow> nat \<Rightarrow> string" where
  "unique_loop files baseName ext candidate counter =
     (if candidate \<in> set files
      then unique_loop files baseName ext (baseName @ ''-'' @ show_nat counter @ ext) (counter + 1)
      else candidate)"
  by pat_completeness auto
termination
proof (relation "measure (\<lambda>(files, b, e, cand, k).
    2 * card {c. k \<le> c \<and> b @ ''-'' @ show_nat c @ e \<in> set files}
      + (if cand \<in> set files then 1 else 0))", goal_cases)
  case 1
  show ?case by simp
next
  case (2 files b e cand k)
  let ?S = "\<lambda>k. {c. k \<le> c \<and> b @ ''-'' @ show_nat c @ e \<in> set files}"
  show ?case
  proof (cases "b @ ''-'' @ show_nat k @ e \<in> set files")
    case True
    have "?S k = insert k (?S (k + 1))"
      using True by (auto simp: le_Suc_eq)
    moreover have "k \<notin> ?S (k + 1)" by simp
    ultimately have "card (?S k) = Suc (card (?S (k + 1)))"
      using finite_taken_names [of "k + 1" b e files] by simp
    then show ?thesis using 2 True by simp
  next
    case False
    have "?S k = ?S (k + 1)"
      using False by (auto simp: le_Suc_eq) (metis Suc_leI le_neq_implies_less)
    then show ?thesis using 2 False by simp
  qed
qed

declare unique_loop.simps [simp del]

definition resolveUniqueFileName :: "string list \<Rightarrow> string \<Rightarrow> string" where
  "resolveUniqueFileName files fileName =
     (let ext = path_extname fileName;
          baseName = (if ext \<noteq> [] then take (length fileName - length ext) fileName else fileName)
      in unique_loop files baseName ext fileName 1)"

section \<open>Downloads (downloads.ts)\<close>

text \<open>
  What the network gives is an argument: \<^verbatim>\<open>fetch\<close> is aborted by the timer, fails, or
  returns a response; the body of a response is the list of the lengths of its chunks, and
  the error, if any, with which the stream breaks after them. The destination directory
  is a map from file names to the number of bytes written.
\<close>

record response_body =
  chunks :: "nat list"
  stream_error :: "raw_error option"

record http_response =
  resp_ok :: bool
  resp_status :: nat
  hdr_content_type :: "string option"
  hdr_content_length :: "string option"
  resp_body :: "response_body option"

datatype fetch_outcome = FetchAborted | FetchFailed | FetchResponse http_response

text \<open>
  \<^verbatim>\<open>Number.parseInt(s, 10)\<close>: leading white space, a sign, and the decimal digits that
  follow; without a digit the result is \<^verbatim>\<open>NaN\<close>, here \<open>None\<close>. A value beyond the range of
  a double is \<open>None\<close> too: it is not finite, and the caller asks \<^verbatim>\<open>Number.isFinite\<close>.
\<close>

definition digit_char :: "char \<Rightarrow> bool" where
  "digit_char c = (c \<in> set ''0123456789'')"

definition parseInt10 :: "string \<Rightarrow> int option" where
  "parseInt10 s =
     (let s1 = dropWhile js_whitespace s;
          negative = (s1 \<noteq> [] \<and> hd s1 = CHR ''-'');
          s2 = (if s1 \<noteq> [] \<and> (hd s1 = CHR ''-'' \<or> hd s1 = CHR ''+'') then tl s1 else s1);
          ds = takeWhile digit_char s2
      in if ds = [] then None
         else if int (parse_digits ds) \<ge> 2 ^ 1024 then None
         else Some (if negative then - int (parse_digits ds) else int (parse_digits ds)))"

definition mapImageExtension :: "string \<Rightarrow> string" where
  "mapImageExtension contentType =
     (if contentType = ''image/jpeg'' then ''.jpg''
      else if contentType = ''image/png'' then ''.png''
      else if contentType = ''image/webp'' then ''.webp''
      else if contentType = ''image/gif'' then ''.gif''
      else if contentType = ''image/bmp'' then ''.bmp''
      else ''.img'')"

definition strip_last_extension :: "string \<Rightarrow> string" where
  "strip_last_extension b =
     (let after = takeWhile (\<lambda>c. c \<noteq> CHR ''.'') (rev b) in
      if CHR ''.'' \<in> set b \<and> after \<noteq> [] then take (length b - length after - 1) b else b)"

definition createSafeFileName :: "url_ctor \<Rightarrow> string \<Rightarrow> string \<Rightarrow> string" where
  "createSafeFileName newURL urlValue extension =
     (let pathname = (case newURL urlValue of Some u \<Rightarrow> pathname u | None \<Rightarrow> []);
          basename = (if path_basename pathname = [] then ''upload'' else path_basename pathname);
          stripped = strip_last_extension basename;
          normalized =
            strip_edges (map (\<lambda>c. if safe_char c then c else CHR ''_'') (ws_runs_to_dash stripped));
          safeBase = (if normalized = [] then ''upload'' else normalized)
      in safeBase @ extension)"

record download_options =
  dl_url :: string
  dl_destinationDir :: string
  dl_maxBytes :: int
  dl_timeoutMs :: int
  dl_allowDomains :: "string list"

record download_result =
  dl_filePath :: string
  dl_fileName :: string
  dl_contentType :: string
  dl_bytes :: nat

fun limitAndCount :: "int \<Rightarrow> nat list \<Rightarrow> nat \<Rightarrow> nat \<Rightarrow> bool \<times> nat \<times> nat" where
  "limitAndCount maxBytes [] totalBytes written = (False, totalBytes, written)"
| "limitAndCount maxBytes (chunk # rest) totalBytes written =
     (if int (totalBytes + chunk) > maxBytes then (True, totalBytes + chunk, written)
      else limitAndCount maxBytes rest (totalBytes + chunk) (written + chunk))"

text \<open>
  \<open>limitAndCount\<close> is the generator of the pipeline: it adds the length of each chunk to
  \<open>totalBytes\<close> and throws once the sum exceeds \<open>maxBytes\<close>; the chunks before that one are
  passed on to the write stream. The result is whether it threw, \<open>totalBytes\<close>, and the
  number of bytes passed on.

  \<^verbatim>\<open>createWriteStream(filePath)\<close> creates the file; the \<^verbatim>\<open>finally\<close> block removes it
  when \<open>totalBytes\<close> is 0.
\<close>

definition responseContentType :: "http_response \<Rightarrow> string" where
  "responseContentType response =
     toLowerCase (trim (hd (split_on CHR '';''
       (case hdr_content_type response of Some h \<Rightarrow> h | None \<Rightarrow> []))))"

definition declaredTooLarge :: "http_response \<Rightarrow> int \<Rightarrow> bool" where
  "declaredTooLarge response maxBytes =
     (case hdr_content_length response of
        None \<Rightarrow> False
      | Some contentLengthHeader \<Rightarrow>
          contentLengthHeader \<noteq> [] \<and>
          (case parseInt10 contentLengthHeader of
             None \<Rightarrow> False
           | Some declaredSize \<Rightarrow> declaredSize > maxBytes))"

definition downloadImageFromUrl ::
    "url_ctor \<Rightarrow> (string \<rightharpoonup> nat) \<Rightarrow> download_options \<Rightarrow> fetch_outcome
      \<Rightarrow> (thrown + download_result) \<times> (string \<rightharpoonup> nat)" where
  "downloadImageFromUrl newURL dir options fetched =
     (let url = dl_url options; maxBytes = dl_maxBytes options in
      case assertAllowedDomain newURL url (dl_allowDomains options) ''uploadFromUrl.url'' of
        Inl e \<Rightarrow> (Inl (Http e), dir)
      | Inr _ \<Rightarrow>
      (case fetched of
        FetchAborted \<Rightarrow>
          (Inl (Http (PlaywrightHttpError 400 (DownloadTimeout (dl_timeoutMs options)))), dir)
      | FetchFailed \<Rightarrow> (Inl (Http (PlaywrightHttpError 400 NetworkFailure)), dir)
      | FetchResponse response \<Rightarrow>
          if \<not> resp_ok response
            then (Inl (Http (PlaywrightHttpError 400 (DownloadHttpStatus (resp_status response)))), dir)
          else
            let contentType = responseContentType response in
            if \<not> startsWith contentType ''image/''
              then (Inl (Http (PlaywrightHttpError 400 (NotImage contentType))), dir)
            else if declaredTooLarge response maxBytes
              then (Inl (Http (PlaywrightHttpError 400 (SizeLimit maxBytes))), dir)
            else
              (case resp_body response of
                 None \<Rightarrow> (Inl (Http (PlaywrightHttpError 400 NoBody)), dir)
               | Some body \<Rightarrow>
                   let extension = mapImageExtension contentType;
                       fileName = createSafeFileName newURL url extension;
                       filePath = path_join (dl_destinationDir options) fileName;
                       (exceeded, totalBytes, written) = limitAndCount maxBytes (chunks body) 0 0;
                       streamed = dir(fileName \<mapsto> written);
                       outcome =
                         (if exceeded then Inl (Http (PlaywrightHttpError 400 (SizeLimit maxBytes)))
                          else case stream_error body of
                                 Some err \<Rightarrow> Inl (Raw err)
                               | None \<Rightarrow>
                                   if totalBytes = 0
                                     then Inl (Http (PlaywrightHttpError 400 EmptyFile))
                                   else Inr \<lparr>dl_filePath = filePath, dl_fileName = fileName,
                                             dl_contentType = contentType, dl_bytes = totalBytes\<rparr>)
                   in (outcome, if totalBytes = 0 then streamed(fileName := None) else streamed))))"

section \<open>The job runner (runner.ts)\<close>

text \<open>
  A log line is the message that \<open>appendLog\<close> is given, as a value with the data the
  template string interpolates; the time stamp that \<open>appendLog\<close> puts in front is left out.
\<close>

record PlaywrightRunnerConfig =
  cfg_allowDomains :: "string list"
  cfg_storageDir :: string
  cfg_outputDir :: string
  cfg_tmpDir :: string
  cfg_artifactsRoutePrefix :: string
  cfg_defaultTimeoutMs :: int
  cfg_maxUploadBytes :: int
  cfg_maxUploadDownloadTimeoutMs :: int

record PlaywrightArtifact =
  art_name :: string
  art_filename :: string
  art_url :: string

record PlaywrightStorageOutput =
  so_session :: string
  so_file :: string

record PlaywrightJobOutputs =
  out_artifacts :: "PlaywrightArtifact list"
  out_extracted :: "string \<rightharpoonup> json option"
  out_storage :: "PlaywrightStorageOutput list"

datatype log_line =
    LogJobStart string nat "string option" int
      \<comment> \<open>\<^verbatim>\<open>[playwright] start job=<jobId> actions=<n> session=<session> timeout_ms=<timeoutMs>\<close>\<close>
  | LogLoadedStorageState string
      \<comment> \<open>\<^verbatim>\<open>[playwright] loaded storageState session=<session>\<close>\<close>
  | LogNoStorageState string
      \<comment> \<open>\<^verbatim>\<open>[playwright] no storageState found for session=<session>\<close>\<close>
  | LogBrowserConsole string string
      \<comment> \<open>\<^verbatim>\<open>[browser:console:<type>] <text>\<close>\<close>
  | LogBrowserPageError string
      \<comment> \<open>\<^verbatim>\<open>[browser:pageerror] <message>\<close>\<close>
  | LogStepStart string
      \<comment> \<open>\<^verbatim>\<open>[step] start <stepLabel>\<close>\<close>
  | LogStepDone string int
      \<comment> \<open>\<^verbatim>\<open>[step] done <stepLabel> took_ms=<ms>\<close>\<close>
  | LogUploadDownloaded nat string
      \<comment> \<open>\<^verbatim>\<open>[step] uploadFromUrl downloaded bytes=<bytes> file=<fileName>\<close>\<close>
  | LogSaveStorage string string
      \<comment> \<open>\<^verbatim>\<open>[step] saveStorage session=<session> file=<file>\<close>\<close>
  | LogEvaluate nat "json option"
      \<comment> \<open>\<^verbatim>\<open>[step] evaluate script_len=<n> result=<result>\<close>\<close>
  | LogJobSuccess string int
      \<comment> \<open>\<^verbatim>\<open>[playwright] success job=<jobId> took_ms=<tookMs>\<close>\<close>
  | LogJobError string nat "err_msg + string"
      \<comment> \<open>\<^verbatim>\<open>[playwright] error job=<jobId> status=<statusCode> message=<message>\<close>\<close>

text \<open>
  The browser is outside the repository. Each call that a step makes on the page or the
  context is recorded in the state, with its arguments; what the browser answers, and
  what the clock, the file system and the network give during a step, is the \<open>step_env\<close>
  of that step: the readings of \<^verbatim>\<open>Date.now()\<close> in \<open>ensureTimeRemaining\<close> and in
  \<open>resolveStepTimeout\<close>, the elapsed time that the completion line reports, the reply
  of the browser to a call, the console and page-error events raised meanwhile,
  whether a path is a regular file, and the outcome of \<^verbatim>\<open>fetch\<close>.
\<close>

datatype page_call =
    PageGoto string string int
  | PageClick string int "int option"
  | PageFill string string int
  | PagePress string string int
  | PageWaitForSelector string int string
  | PageWaitForTimeout int
  | PageSetInputFiles string string int
  | PageScreenshot string bool int
  | PageTextContent string int
  | PageGetAttribute string string int
  | ContextStorageState string
  | PageEvaluate string "json option"

datatype call_result = Returns "json option" | Throws raw_error

datatype page_event = ConsoleMessage string string | PageErrorEvent string

record step_env =
  now_ensure :: int
  now_resolve :: int
  now_resolve2 :: int
  took_ms :: int
  page_reply :: "page_call \<Rightarrow> call_result"
  page_events :: "page_event list"
  stat_isFile :: "string \<Rightarrow> bool"
  fetched :: fetch_outcome

text \<open>
  The state of a job: the logs, the outputs, the names of the regular files in the
  output directory of the job, the files of its temporary directory, and the calls made
  on the browser so far.
\<close>

record job_state =
  st_logs :: "log_line list"
  st_outputs :: PlaywrightJobOutputs
  st_outputFiles :: "string list"
  st_tmpFiles :: "string \<rightharpoonup> nat"
  st_calls :: "page_call list"

definition appendLog :: "log_line \<Rightarrow> job_state \<Rightarrow> job_state" where
  "appendLog line st = st\<lparr>st_logs := st_logs st @ [line]\<rparr>"

definition truncate_text :: "string \<Rightarrow> nat \<Rightarrow> string" where
  "truncate_text v maxChars =
     (if length v \<le> maxChars then v else take maxChars v @ ''...[truncated]'')"

fun log_of_event :: "page_event \<Rightarrow> log_line" where
  "log_of_event (ConsoleMessage type text) = LogBrowserConsole type (truncate_text text 500)"
| "log_of_event (PageErrorEvent msg) = LogBrowserPageError (truncate_text msg 500)"

fun tails :: "'a list \<Rightarrow> 'a list list" where
  "tails [] = [[]]"
| "tails (x # xs) = (x # xs) # tails xs"

definition isPlaywrightTimeoutError :: "raw_error \<Rightarrow> bool" where
  "isPlaywrightTimeoutError e =
     (err_name e = ''TimeoutError''
      \<or> list_ex (\<lambda>t. startsWith t ''timeout'') (tails (toLowerCase (err_message e))))"

definition normalizeActionError :: "thrown \<Rightarrow> action \<Rightarrow> nat \<Rightarrow> http_error" where
  "normalizeActionError error a index =
     (case error of
        Http e \<Rightarrow> e
      | Raw e \<Rightarrow>
          if isPlaywrightTimeoutError e
            then PlaywrightHttpError 504 (ActionTimeout (index + 1) (action_tag a) (err_message e))
          else PlaywrightHttpError 500 (ActionFailed (index + 1) (action_tag a) (err_message e)))"

record step_context =
  ctx_runtime :: runtime
  ctx_cwd :: string
  ctx_config :: PlaywrightRunnerConfig
  ctx_jobId :: string
  ctx_deadline :: int
  ctx_jobOutputDir :: string
  ctx_jobTmpDir :: string

type_synonym step_result = "(thrown \<times> job_state) + job_state"

text \<open>
  \<open>executeAction\<close>, one case of the \<^verbatim>\<open>switch\<close> after the other. \<open>withStepTimeout\<close> is a
  call of \<open>resolveStepTimeout\<close> whose error leaves the step, \<open>callPage\<close> a call on the page
  or the context: it records the call and the events raised meanwhile, and the step ends
  with the error of the browser or goes on with its reply. A screenshot that succeeds
  adds its file to the output directory. In the URL of an artifact
  \<^verbatim>\<open>encodeURIComponent\<close> is applied to a sanitized file name, which it leaves unchanged.
\<close>

definition withStepTimeout ::
    "int \<Rightarrow> int \<Rightarrow> int option \<Rightarrow> job_state \<Rightarrow> (int \<Rightarrow> step_result) \<Rightarrow> step_result" where
  "withStepTimeout deadline now requested st k =
     (case resolveStepTimeout deadline now requested of
        Inl e \<Rightarrow> Inl (Http e, st)
      | Inr timeout \<Rightarrow> k timeout)"

definition callPage ::
    "step_env \<Rightarrow> page_call \<Rightarrow> job_state \<Rightarrow> (json option \<Rightarrow> job_state \<Rightarrow> job_state) \<Rightarrow> step_result" where
  "callPage env c st k =
     (let st' = st\<lparr>st_calls := st_calls st @ [c],
                   st_logs := st_logs st @ map log_of_event (page_events env)\<rparr>
      in case page_reply env c of
           Throws e \<Rightarrow> Inl (Raw e, st')
         | Returns v \<Rightarrow> Inr (k v st'))"

definition orDefault :: "string option \<Rightarrow> string \<Rightarrow> string" where
  "orDefault v d = (case v of None \<Rightarrow> d | Some s \<Rightarrow> if s = [] then d else s)"

definition text_of :: "json option \<Rightarrow> string" where
  "text_of v = (case v of Some (JStr s) \<Rightarrow> s | _ \<Rightarrow> [])"

definition executeAction :: "step_context \<Rightarrow> step_env \<Rightarrow> action \<Rightarrow> job_state \<Rightarrow> step_result" where
  "executeAction ctx env a st =
     (let deadline = ctx_deadline ctx; config = ctx_config ctx in
      case ensureTimeRemaining deadline (now_ensure env) (action_tag a) of
        Inl e \<Rightarrow> Inl (Http e, st)
      | Inr _ \<Rightarrow>
      (case a of
        Goto url waitUntil \<Rightarrow>
          withStepTimeout deadline (now_resolve env) None st (\<lambda>timeout.
            callPage env (PageGoto url (orDefault waitUntil ''domcontentloaded'') timeout) st
              (\<lambda>_ st'. st'))
      | Click selector delayMs \<Rightarrow>
          withStepTimeout deadline (now_resolve env) None st (\<lambda>timeout.
            callPage env (PageClick selector timeout delayMs) st (\<lambda>_ st'. st'))
      | Fill selector text \<Rightarrow>
          withStepTimeout deadline (now_resolve env) None st (\<lambda>timeout.
            callPage env (PageFill selector text timeout) st (\<lambda>_ st'. st'))
      | Press selector key \<Rightarrow>
          withStepTimeout deadline (now_resolve env) None st (\<lambda>timeout.
            callPage env (PagePress selector key timeout) st (\<lambda>_ st'. st'))
      | WaitFor selector state timeoutMs \<Rightarrow>
          withStepTimeout deadline (now_resolve env) timeoutMs st (\<lambda>timeout.
            if orDefault selector [] \<noteq> []
              then callPage env
                     (PageWaitForSelector (orDefault selector []) timeout (orDefault state ''visible''))
                     st (\<lambda>_ st'. st')
            else callPage env (PageWaitForTimeout (max 1 timeout)) st (\<lambda>_ st'. st'))
      | Upload selector path \<Rightarrow>
          let localPath = resolveLocalUploadPath (ctx_cwd ctx) path in
          if \<not> stat_isFile env localPath
            then Inl (Http (PlaywrightHttpError 400 (UploadFileNotFound path)), st)
          else
            withStepTimeout deadline (now_resolve env) None st (\<lambda>timeout.
              callPage env (PageSetInputFiles selector localPath timeout) st (\<lambda>_ st'. st'))
      | UploadFromUrl selector url \<Rightarrow>
          withStepTimeout deadline (now_resolve env) None st (\<lambda>timeout.
            let (download, tmpFiles) =
                  downloadImageFromUrl (js_URL (ctx_runtime ctx)) (st_tmpFiles st)
                    \<lparr>dl_url = url, dl_destinationDir = ctx_jobTmpDir ctx,
                     dl_maxBytes = cfg_maxUploadBytes config,
                     dl_timeoutMs = min timeout (cfg_maxUploadDownloadTimeoutMs config),
                     dl_allowDomains = cfg_allowDomains config\<rparr>
                    (fetched env);
                st1 = st\<lparr>st_tmpFiles := tmpFiles\<rparr>
            in case download of
                 Inl e \<Rightarrow> Inl (e, st1)
               | Inr d \<Rightarrow>
                   let st2 = appendLog (LogUploadDownloaded (dl_bytes d) (dl_fileName d)) st1 in
                   withStepTimeout deadline (now_resolve2 env) None st2 (\<lambda>timeout2.
                     callPage env (PageSetInputFiles selector (dl_filePath d) timeout2) st2
                       (\<lambda>_ st'. st')))
      | Screenshot name fullPage \<Rightarrow>
          (case sanitizeArtifactFilename name of
             Inl e \<Rightarrow> Inl (Http e, st)
           | Inr desiredFileName \<Rightarrow>
               let fileName = resolveUniqueFileName (st_outputFiles st) desiredFileName;
                   absoluteFilePath = path_join (ctx_jobOutputDir ctx) fileName
               in withStepTimeout deadline (now_resolve env) None st (\<lambda>timeout.
                    callPage env (PageScreenshot absoluteFilePath (fullPage = Some True) timeout) st
                      (\<lambda>_ st'. st'
                         \<lparr>st_outputFiles := st_outputFiles st' @ [fileName],
                          st_outputs := (st_outputs st')
                            \<lparr>out_artifacts := out_artifacts (st_outputs st') @
                               [\<lparr>art_name = name, art_filename = fileName,
                                 art_url = cfg_artifactsRoutePrefix config @ ''/'' @ ctx_jobId ctx
                                            @ ''/'' @ fileName\<rparr>]\<rparr>\<rparr>)))
      | ExtractText selector key \<Rightarrow>
          withStepTimeout deadline (now_resolve env) None st (\<lambda>timeout.
            callPage env (PageTextContent selector timeout) st
              (\<lambda>text st'. st'\<lparr>st_outputs := (st_outputs st')
                 \<lparr>out_extracted := (out_extracted (st_outputs st'))
                    (key \<mapsto> Some (JStr (trim (text_of text))))\<rparr>\<rparr>))
      | ExtractAttr selector attr key \<Rightarrow>
          withStepTimeout deadline (now_resolve env) None st (\<lambda>timeout.
            callPage env (PageGetAttribute selector attr timeout) st
              (\<lambda>v st'. st'\<lparr>st_outputs := (st_outputs st')
                 \<lparr>out_extracted := (out_extracted (st_outputs st'))
                    (key \<mapsto> Some (JStr (text_of v)))\<rparr>\<rparr>))
      | SaveStorage session \<Rightarrow>
          (case getSessionStatePath (ctx_cwd ctx) (cfg_storageDir config) session of
             Inl e \<Rightarrow> Inl (Http e, st)
           | Inr sessionPath \<Rightarrow>
               callPage env (ContextStorageState sessionPath) st
                 (\<lambda>_ st'. appendLog (LogSaveStorage session (path_basename sessionPath))
                    (st'\<lparr>st_outputs := (st_outputs st')
                       \<lparr>out_storage := out_storage (st_outputs st') @
                          [\<lparr>so_session = session, so_file = path_basename sessionPath\<rparr>]\<rparr>\<rparr>)))
      | Evaluate script arg key \<Rightarrow>
          callPage env (PageEvaluate script arg) st
            (\<lambda>result st'. appendLog (LogEvaluate (length script) result)
               (if orDefault key [] \<noteq> []
                then st'\<lparr>st_outputs := (st_outputs st')
                       \<lparr>out_extracted := (out_extracted (st_outputs st'))
                          (orDefault key [] \<mapsto> result)\<rparr>\<rparr>
                else st'))))"

text \<open>
  The loop of \<open>runPlaywrightJob\<close> over the actions, from the step of index \<open>i\<close> on, with
  \<open>n\<close> the number of actions of the request. An error of a step ends the loop, normalized
  by \<open>normalizeActionError\<close>, with the state as the step left it.
\<close>

definition stepLabel :: "nat \<Rightarrow> nat \<Rightarrow> action \<Rightarrow> string" where
  "stepLabel i n a = show_nat (i + 1) @ ''/'' @ show_nat n @ '' '' @ action_tag a"

fun runSteps ::
    "step_context \<Rightarrow> (nat \<Rightarrow> step_env) \<Rightarrow> nat \<Rightarrow> nat \<Rightarrow> action list \<Rightarrow> job_state
      \<Rightarrow> (http_error \<times> job_state) + job_state" where
  "runSteps ctx envs n i [] st = Inr st"
| "runSteps ctx envs n i (a # rest) st =
     (let st1 = appendLog (LogStepStart (stepLabel i n a)) st in
      case executeAction ctx (envs i) a st1 of
        Inl (error, st2) \<Rightarrow> Inl (normalizeActionError error a i, st2)
      | Inr st2 \<Rightarrow>
          runSteps ctx envs n (i + 1) rest
            (appendLog (LogStepDone (stepLabel i n a) (took_ms (envs i))) st2))"

text \<open>
  The job. What lies outside the code is the \<open>job_env\<close>: the readings of the clock at
  the start and at the end, the identifier that \<^verbatim>\<open>randomUUID\<close> gives, the error, if any,
  with which creating the directories or launching the browser fails, whether the session
  has a stored state, the error, if any, with which creating the context and the page
  fails, the \<open>step_env\<close> of each step, and the error, if any, with which closing the
  context and the browser fails.
\<close>

definition hex_char :: "char \<Rightarrow> bool" where
  "hex_char c = (c \<in> set ''0123456789abcdefABCDEF'')"

definition UUID_REGEX :: "string \<Rightarrow> bool" where
  "UUID_REGEX s =
     (case split_on CHR ''-'' s of
        [a, b, c, d, e] \<Rightarrow>
          length a = 8 \<and> length b = 4 \<and> length c = 4 \<and> length d = 4 \<and> length e = 12
          \<and> list_all hex_char (a @ b @ c @ d @ e)
          \<and> hd c \<in> set ''12345'' \<and> hd d \<in> set ''89abAB''
      | _ \<Rightarrow> False)"

definition validateJobId :: "string \<Rightarrow> http_error + unit" where
  "validateJobId v =
     (if \<not> UUID_REGEX v then Inl (PlaywrightHttpError 400 JobIdInvalid) else Inr ())"

definition ensureJobDirectories ::
    "string \<Rightarrow> string \<Rightarrow> string \<Rightarrow> string \<Rightarrow> http_error + string \<times> string" where
  "ensureJobDirectories cwd outputDir tmpDir jobId =
     andThen (validateJobId jobId) (\<lambda>_.
     andThen (resolveInsideRoot cwd outputDir jobId ''job output directory'') (\<lambda>jobOutputDir.
     andThen (resolveInsideRoot cwd tmpDir jobId ''job tmp directory'') (\<lambda>jobTmpDir.
     Inr (jobOutputDir, jobTmpDir))))"

definition DEFAULT_USER_AGENT :: string where
  "DEFAULT_USER_AGENT =
     ''Mozilla/5.0 (Windows NT 10.0; Win64; x64) AppleWebKit/537.36 (KHTML, like Gecko) Chrome/122.0.0.0 Safari/537.36''"

record context_options =
  co_storageState :: "string option"
  co_viewport :: viewport_size
  co_userAgent :: string
  co_bypassCSP :: bool
  co_proxy :: "proxy_settings option"

definition launchProxy :: "PlaywrightRunRequest \<Rightarrow> proxy_settings option" where
  "launchProxy request = req_proxy request"

definition newContextOptions :: "PlaywrightRunRequest \<Rightarrow> string option \<Rightarrow> context_options" where
  "newContextOptions request storageState =
     \<lparr>co_storageState = storageState,
      co_viewport = (case req_viewport request of
                       Some v \<Rightarrow> v
                     | None \<Rightarrow> \<lparr>vp_width = 1280, vp_height = 800\<rparr>),
      co_userAgent = orDefault (req_userAgent request) DEFAULT_USER_AGENT,
      co_bypassCSP = True,
      co_proxy = req_proxy request\<rparr>"

definition blockedTypes :: "PlaywrightRunRequest \<Rightarrow> string list option" where
  "blockedTypes request =
     (case req_blockResources request of
        None \<Rightarrow> None
      | Some types \<Rightarrow> if length types > 0 then Some types else None)"

record job_env =
  env_startedAt :: int
  env_finishedAt :: int
  env_jobId :: string
  env_launch_error :: "raw_error option"
  env_session_stored :: bool
  env_context_error :: "raw_error option"
  env_steps :: "nat \<Rightarrow> step_env"
  env_close_error :: "raw_error option"

record job_setup =
  setup_launchProxy :: "proxy_settings option"
  setup_context :: context_options
  setup_blockedTypes :: "string list option"
  setup_defaultTimeout :: int

definition initial_state :: "PlaywrightRunRequest \<Rightarrow> job_env \<Rightarrow> job_state" where
  "initial_state request env =
     \<lparr>st_logs = [LogJobStart (env_jobId env) (length (req_actions request))
                   (req_session request) (req_timeoutMs request)],
      st_outputs = \<lparr>out_artifacts = [], out_extracted = Map.empty, out_storage = []\<rparr>,
      st_outputFiles = [],
      st_tmpFiles = Map.empty,
      st_calls = []\<rparr>"

definition jobSetup ::
    "runtime \<Rightarrow> string \<Rightarrow> PlaywrightRunRequest \<Rightarrow> PlaywrightRunnerConfig \<Rightarrow> job_env
      \<Rightarrow> (thrown \<times> job_state) + (step_context \<times> job_setup \<times> job_state)" where
  "jobSetup rt cwd request config env =
     (let st0 = initial_state request env in
      case ensureJobDirectories cwd (cfg_outputDir config) (cfg_tmpDir config) (env_jobId env) of
        Inl e \<Rightarrow> Inl (Http e, st0)
      | Inr (jobOutputDir, jobTmpDir) \<Rightarrow>
      (case env_launch_error env of
        Some e \<Rightarrow> Inl (Raw e, st0)
      | None \<Rightarrow>
      (case (if orDefault (req_session request) [] = [] then Inr (None, st0)
             else case getSessionStatePath cwd (cfg_storageDir config)
                         (orDefault (req_session request) []) of
                    Inl e \<Rightarrow> Inl (Http e, st0)
                  | Inr sessionPath \<Rightarrow>
                      if env_session_stored env
                        then Inr (Some sessionPath,
                               appendLog (LogLoadedStorageState (orDefault (req_session request) [])) st0)
                      else Inr (None,
                             appendLog (LogNoStorageState (orDefault (req_session request) [])) st0))
       of
        Inl failure \<Rightarrow> Inl failure
      | Inr (storageState, st1) \<Rightarrow>
      (case env_context_error env of
        Some e \<Rightarrow> Inl (Raw e, st1)
      | None \<Rightarrow>
          Inr (\<lparr>ctx_runtime = rt, ctx_cwd = cwd, ctx_config = config, ctx_jobId = env_jobId env,
                ctx_deadline = env_startedAt env + req_timeoutMs request,
                ctx_jobOutputDir = jobOutputDir, ctx_jobTmpDir = jobTmpDir\<rparr>,
               \<lparr>setup_launchProxy = launchProxy request,
                setup_context = newContextOptions request storageState,
                setup_blockedTypes = blockedTypes request,
                setup_defaultTimeout = min 30000 (req_timeoutMs request)\<rparr>,
               st1)))))"

datatype job_result =
    RunResult string int PlaywrightJobOutputs "log_line list"
  | PlaywrightJobError "err_msg + string" nat string int "log_line list"

definition resolveStatusCode :: "thrown \<Rightarrow> nat" where
  "resolveStatusCode error =
     (case error of
        Http e \<Rightarrow> statusCode e
      | Raw e \<Rightarrow> if isPlaywrightTimeoutError e then 504 else 500)"

definition getErrorMessage :: "thrown \<Rightarrow> err_msg + string" where
  "getErrorMessage error = (case error of Http e \<Rightarrow> Inl (message e) | Raw e \<Rightarrow> Inr (err_message e))"

definition jobFailure :: "job_env \<Rightarrow> thrown \<Rightarrow> job_state \<Rightarrow> job_result \<times> job_state" where
  "jobFailure env error st =
     (let tookMs = env_finishedAt env - env_startedAt env;
          msg = getErrorMessage error;
          status = resolveStatusCode error;
          st' = appendLog (LogJobError (env_jobId env) status msg) st
      in (PlaywrightJobError msg status (env_jobId env) tookMs (st_logs st'),
          st'\<lparr>st_tmpFiles := Map.empty\<rparr>))"

definition runPlaywrightJob ::
    "runtime \<Rightarrow> string \<Rightarrow> PlaywrightRunRequest \<Rightarrow> PlaywrightRunnerConfig \<Rightarrow> job_env
      \<Rightarrow> job_result \<times> job_state" where
  "runPlaywrightJob rt cwd request config env =
     (case jobSetup rt cwd request config env of
        Inl (error, st) \<Rightarrow> jobFailure env error st
      | Inr (ctx, prepared, st0) \<Rightarrow>
      (case runSteps ctx (env_steps env) (length (req_actions request)) 0 (req_actions request) st0 of
        Inl (error, st) \<Rightarrow> jobFailure env (Http error) st
      | Inr st \<Rightarrow>
      (case env_close_error env of
        Some e \<Rightarrow> jobFailure env (Raw e) st
      | None \<Rightarrow>
          let tookMs = env_finishedAt env - env_startedAt env;
              st' = appendLog (LogJobSuccess (env_jobId env) tookMs) st
          in (RunResult (env_jobId env) tookMs (st_outputs st') (st_logs st'),
              st'\<lparr>st_tmpFiles := Map.empty\<rparr>))))"

text \<open>The completion lines of a log, and what a job has written as screenshots.\<close>

fun is_step_done :: "log_line \<Rightarrow> bool" where
  "is_step_done (LogStepDone _ _) = True"
| "is_step_done _ = False"

definition done_lines :: "log_line list \<Rightarrow> log_line list" where
  "done_lines logs = filter is_step_done logs"


definition shots :: "job_state \<Rightarrow> string list \<times> PlaywrightArtifact list" where
  "shots st = (st_outputFiles st, out_artifacts (st_outputs st))"

text \<open>
  Data to run a job on: a configuration, a step in which the clock reads \<open>t\<close> and the
  browser answers every call, and a job in which creating the directories, launching the
  browser and closing it succeed.
\<close>

definition demo_config :: PlaywrightRunnerConfig where
  "demo_config =
     \<lparr>cfg_allowDomains = [], cfg_storageDir = ''/app/storageStates'',
      cfg_outputDir = ''/app/output'', cfg_tmpDir = ''/app/tmp'',
      cfg_artifactsRoutePrefix = ''/playwright/artifacts'', cfg_defaultTimeoutMs = 60000,
      cfg_maxUploadBytes = 10485760, cfg_maxUploadDownloadTimeoutMs = 30000\<rparr>"

definition demo_step :: "int \<Rightarrow> step_env" where
  "demo_step t =
     \<lparr>now_ensure = t, now_resolve = t, now_resolve2 = t, took_ms = 100,
      page_reply = (\<lambda>_. Returns None), page_events = [],
      stat_isFile = (\<lambda>p. p = ''/etc/passwd''), fetched = FetchFailed\<rparr>"

definition demo_env :: "(nat \<Rightarrow> step_env) \<Rightarrow> job_env" where
  "demo_env steps =
     \<lparr>env_startedAt = 1000, env_finishedAt = 8000,
      env_jobId = ''123e4567-e89b-42d3-a456-426614174000'',
      env_launch_error = None, env_session_stored = False, env_context_error = None,
      env_steps = steps, env_close_error = None\<rparr>"

definition demo_request :: "action list \<Rightarrow> PlaywrightRunRequest" where
  "demo_request as =
     \<lparr>req_session = None, req_timeoutMs = 5000, req_proxy = None, req_blockResources = None,
      req_userAgent = None, req_viewport = None, req_actions = as\<rparr>"

text \<open>The clock of a job of two steps whose deadline, 6000, has passed when the second step starts.\<close>

definition late_steps :: "nat \<Rightarrow> step_env" where
  "late_steps i = (if i = 0 then demo_step 2000 else demo_step 7000)"



definition demo_body :: json where
  "demo_body = JObj
     [(''timeoutMs'', JNum (Integer 5000)),
      (''proxy'', JObj [(''server'', JStr ''http://proxy.example:8080'')]),
      (''userAgent'', JStr ''custom-agent''),
      (''viewport'', JObj [(''width'', JNum (Integer 800)), (''height'', JNum (Integer 600))]),
      (''blockResources'', JArr [JStr ''image'']),
      (''actions'', JArr [JObj [(''action'', JStr ''goto''), (''url'', JStr ''https://example.com'')],
                          JObj [(''screenshot'', JObj [(''name'', JStr ''home'')])]])]"

text \<open>A response without a length header whose body has two chunks of 8 bytes.\<close>

definition photo_response :: http_response where
  "photo_response =
     \<lparr>resp_ok = True, resp_status = 200, hdr_content_type = Some ''image/jpeg'',
      hdr_content_length = None,
      resp_body = Some \<lparr>chunks = [8, 8], stream_error = None\<rparr>\<rparr>"

definition photo_options :: download_options where
  "photo_options =
     \<lparr>dl_url = ''https://example.com/photo.jpg'', dl_destinationDir = ''/app/tmp/job'',
      dl_maxBytes = 10, dl_timeoutMs = 1000, dl_allowDomains = []\<rparr>"

section \<open>Lemmas on strings and paths\<close>

lemma split_on_nonempty: "split_on c xs \<noteq> []"
  by (induction xs) (auto split: list.splits)

lemma split_on_append: "split_on c (xs @ c # ys) = split_on c xs @ split_on c ys"
proof (induction xs)
  case Nil
  show ?case by simp
next
  case (Cons x xs)
  obtain s ss where s: "split_on c xs = s # ss"
    using split_on_nonempty [of c xs] by (cases "split_on c xs") auto
  with Cons show ?case by simp
qed

lemma split_on_no_sep: "c \<notin> set f \<Longrightarrow> split_on c f = [f]"
  by (induction f) auto

lemma resolve_concat_acc: "resolve_concat cwd ps acc = resolve_concat cwd ps [] @ acc"
proof (induction ps arbitrary: acc)
  case Nil
  show ?case by simp
next
  case (Cons p ps)
  show ?case
    using Cons [of "p @ ''/'' @ acc"] Cons [of "p @ ''/''"] Cons [of acc]
    by simp
qed

lemma resolve_concat_slash: "\<exists>A. resolve_concat cwd ps [] = A @ ''/''"
proof (induction ps)
  case Nil
  show ?case by simp
next
  case (Cons p ps)
  then obtain A where A: "resolve_concat cwd ps [] = A @ ''/''" by blast
  show ?case
  proof (cases "p = [] \<or> hd p = CHR ''/''")
    case True
    then show ?thesis using A by auto
  next
    case False
    have "resolve_concat cwd (p # ps) [] = resolve_concat cwd ps [] @ p @ ''/''"
      using False resolve_concat_acc [of cwd ps "p @ ''/''"] by simp
    then show ?thesis by (metis append.assoc)
  qed
qed

lemma join_snoc: "N \<noteq> [] \<Longrightarrow> join sep (N @ [f]) = join sep N @ sep @ f"
  by (induction sep N rule: join.induct) auto

lemma normalize_nonempty:
  "\<forall>s\<in>set res. s \<noteq> [] \<Longrightarrow> \<forall>s\<in>set (foldl normalize_step res segs). s \<noteq> []"
proof (induction segs arbitrary: res)
  case Nil
  then show ?case by simp
next
  case (Cons seg segs)
  have "\<forall>s\<in>set (normalize_step res seg). s \<noteq> []"
    using Cons.prems by (auto simp: normalize_step_def dest: in_set_butlastD)
  then show ?case using Cons.IH by simp
qed

lemma join_nonempty: "N \<noteq> [] \<Longrightarrow> \<forall>s\<in>set N. s \<noteq> [] \<Longrightarrow> join sep N \<noteq> []"
  by (induction sep N rule: join.induct) auto

lemma path_resolve_child:
  assumes f: "plain_segment f"
  shows "path_resolve cwd [rootDir, f] =
           (if path_resolve cwd [rootDir] = ''/'' then ''/'' @ f
            else path_resolve cwd [rootDir] @ ''/'' @ f)"
proof -
  obtain A where A: "resolve_concat cwd [rootDir] [] = A @ ''/''"
    using resolve_concat_slash by blast
  define N where "N = foldl normalize_step [] (split_on CHR ''/'' A)"
  have hd: "hd f \<noteq> CHR ''/''" "f \<noteq> []"
    using f by (cases f; auto simp: plain_segment_def)+
  have "resolve_concat cwd (rev [rootDir, f]) [] = resolve_concat cwd [rootDir] (f @ ''/'')"
    using hd by simp
  also have "\<dots> = A @ CHR ''/'' # (f @ ''/'')"
    using resolve_concat_acc [of cwd "[rootDir]" "f @ ''/''"] A by simp
  finally have cat: "resolve_concat cwd (rev [rootDir, f]) [] = A @ CHR ''/'' # (f @ ''/'')" .
  have "split_on CHR ''/'' (f @ ''/'') = [f, []]"
    using split_on_append [of "CHR ''/''" f "[]"] split_on_no_sep [of "CHR ''/''" f] f
    by (simp add: plain_segment_def)
  then have sp2: "split_on CHR ''/'' (A @ CHR ''/'' # (f @ ''/'')) = split_on CHR ''/'' A @ [f, []]"
    using split_on_append [of "CHR ''/''" A "f @ ''/''"] by simp
  have sp1: "split_on CHR ''/'' (A @ ''/'') = split_on CHR ''/'' A @ [[]]"
    using split_on_append [of "CHR ''/''" A "[]"] by simp
  have root: "path_resolve cwd [rootDir] = ''/'' @ join ''/'' N"
    using A sp1 by (simp add: path_resolve_def N_def normalize_step_def)
  have child: "path_resolve cwd [rootDir, f] = ''/'' @ join ''/'' (N @ [f])"
    using cat sp2 f by (simp add: path_resolve_def N_def normalize_step_def plain_segment_def)
  show ?thesis
  proof (cases "N = []")
    case True
    then show ?thesis using root child by simp
  next
    case False
    then have "join ''/'' N \<noteq> []"
      using join_nonempty [of N "''/''"] normalize_nonempty [of "[]" "split_on CHR ''/'' A"]
      by (simp add: N_def)
    then show ?thesis using root child join_snoc [OF False] by simp
  qed
qed


lemma safe_char_not_slash: "safe_char c \<Longrightarrow> c \<noteq> CHR ''/''"
  by (auto simp: safe_char_def)

lemma session_file_plain:
  assumes "session_regex s"
  shows "plain_segment (s @ ''.json'')"
proof -
  have "\<forall>c\<in>set s. safe_char c"
    using assms by (simp add: session_regex_def list_all_iff)
  then have "CHR ''/'' \<notin> set s"
    using safe_char_not_slash by blast
  moreover have "s \<noteq> []" using assms by (auto simp: session_regex_def)
  ultimately show ?thesis
    by (cases s) (simp_all add: plain_segment_def)
qed


lemma limitAndCount_exceeds:
  "int t \<le> maxBytes \<Longrightarrow> maxBytes < int (t + sum_list cs) \<Longrightarrow>
     \<exists>total written. limitAndCount maxBytes cs t w = (True, total, written) \<and> maxBytes < int total"
proof (induction cs arbitrary: t w)
  case Nil
  then show ?case by simp
next
  case (Cons c cs)
  show ?case
  proof (cases "int (t + c) > maxBytes")
    case True
    then show ?thesis by simp
  next
    case False
    then have "int (t + c) \<le> maxBytes" by simp
    moreover have "maxBytes < int ((t + c) + sum_list cs)"
      using Cons.prems(2) by (simp add: add.assoc)
    ultimately show ?thesis using Cons.IH [of "t + c" "w + c"] False by simp
  qed
qed

lemmas download_eval =
  downloadImageFromUrl_def assertAllowedDomain_def responseContentType_def declaredTooLarge_def
  photo_response_def photo_options_def toLowerCase_def lower_char_def trim_def js_whitespace_def
  startsWith_def mapImageExtension_def createSafeFileName_def plain_url_def scheme_char_def
  safe_char_def path_basename_def strip_last_extension_def strip_edges_def edge_char_def
  path_join_def normalize_step_def

section \<open>Lemmas on the steps of a job\<close>

lemma events_not_done: "filter is_step_done (map log_of_event es) = []"
proof -
  have "\<not> is_step_done (log_of_event e)" for e by (cases e) simp_all
  then show ?thesis by (induction es) simp_all
qed

lemma callPage_done:
  assumes "callPage env c st k = Inr st'"
    and "\<And>v s. done_lines (st_logs (k v s)) = done_lines (st_logs s)"
  shows "done_lines (st_logs st') = done_lines (st_logs st)"
  using assms
  by (auto simp: callPage_def Let_def done_lines_def events_not_done split: call_result.splits)

lemma callPage_id_done:
  "callPage env c st (\<lambda>_ s. s) = Inr st' \<Longrightarrow> done_lines (st_logs st') = done_lines (st_logs st)"
  by (erule callPage_done) simp

lemma withStepTimeout_Inr:
  "withStepTimeout d now req st k = Inr st' \<Longrightarrow> \<exists>t. k t = Inr st'"
  by (auto simp: withStepTimeout_def split: sum.splits)

lemma appendLog_done:
  "\<not> is_step_done l \<Longrightarrow> done_lines (st_logs (appendLog l s)) = done_lines (st_logs s)"
  by (simp add: appendLog_def done_lines_def)

lemma executeAction_done:
  assumes "executeAction ctx env a st = Inr st'"
  shows "done_lines (st_logs st') = done_lines (st_logs st)"
proof -
  have t: "ensureTimeRemaining (ctx_deadline ctx) (now_ensure env) (action_tag a) = Inr ()"
    using assms by (auto simp: executeAction_def Let_def split: sum.splits)
  show ?thesis
  proof (cases a)
    case (Goto url waitUntil)
    then show ?thesis using assms t
      by (auto simp: executeAction_def Let_def dest!: withStepTimeout_Inr elim!: callPage_done)
  next
    case (Click x1 x2)
    then show ?thesis using assms t
      by (auto simp: executeAction_def Let_def dest!: withStepTimeout_Inr elim!: callPage_done)
  next
    case (Fill x1 x2)
    then show ?thesis using assms t
      by (auto simp: executeAction_def Let_def dest!: withStepTimeout_Inr elim!: callPage_done)
  next
    case (Press x1 x2)
    then show ?thesis using assms t
      by (auto simp: executeAction_def Let_def dest!: withStepTimeout_Inr elim!: callPage_done)
  next
    case (WaitFor x1 x2 x3)
    then show ?thesis using assms t
      by (auto simp: executeAction_def Let_def split: if_splits dest!: withStepTimeout_Inr elim!: callPage_done)
  next
    case (Upload x1 x2)
    then show ?thesis using assms t
      by (auto simp: executeAction_def Let_def split: if_splits dest!: withStepTimeout_Inr elim!: callPage_done)
  next
    case (UploadFromUrl selector url)
    then show ?thesis using assms t
      by (auto simp: executeAction_def Let_def appendLog_done split: if_splits prod.splits sum.splits
          dest!: withStepTimeout_Inr callPage_id_done)
  next
    case (Screenshot x1 x2)
    then show ?thesis using assms t
      by (auto simp: executeAction_def Let_def split: sum.splits dest!: withStepTimeout_Inr elim!: callPage_done)
  next
    case (ExtractText x1 x2)
    then show ?thesis using assms t
      by (auto simp: executeAction_def Let_def dest!: withStepTimeout_Inr elim!: callPage_done)
  next
    case (ExtractAttr x1 x2 x3)
    then show ?thesis using assms t
      by (auto simp: executeAction_def Let_def dest!: withStepTimeout_Inr elim!: callPage_done)
  next
    case (SaveStorage x1)
    then show ?thesis using assms t
      by (auto simp: executeAction_def Let_def appendLog_done split: sum.splits elim!: callPage_done)
  next
    case (Evaluate x1 x2 x3)
    then show ?thesis using assms t
      by (auto simp: executeAction_def Let_def appendLog_done elim!: callPage_done)
  qed
qed


lemma runSteps_append:
  "runSteps ctx envs n i (xs @ ys) st =
     (case runSteps ctx envs n i xs st of
        Inl failure \<Rightarrow> Inl failure
      | Inr st' \<Rightarrow> runSteps ctx envs n (i + length xs) ys st')"
proof (induction xs arbitrary: i st)
  case Nil
  show ?case by simp
next
  case (Cons a xs)
  show ?case
    using Cons [of "Suc i"] by (simp add: Let_def split: sum.splits prod.splits)
qed

lemma runSteps_done:
  "runSteps ctx envs n i as st = Inr st' \<Longrightarrow>
     done_lines (st_logs st') =
       done_lines (st_logs st)
       @ map (\<lambda>j. LogStepDone (stepLabel (i + j) n (as ! j)) (took_ms (envs (i + j))))
           [0..<length as]"
proof (induction as arbitrary: i st)
  case Nil
  then show ?case by simp
next
  case (Cons a as)
  from Cons.prems obtain st2 where
    ex: "executeAction ctx (envs i) a (appendLog (LogStepStart (stepLabel i n a)) st) = Inr st2"
    and rest: "runSteps ctx envs n (Suc i) as
                 (appendLog (LogStepDone (stepLabel i n a) (took_ms (envs i))) st2) = Inr st'"
    by (auto simp: Let_def split: sum.splits prod.splits)
  have d2: "done_lines (st_logs st2) = done_lines (st_logs st)"
    using executeAction_done [OF ex] by (simp add: appendLog_done)
  have "done_lines (st_logs st') =
      (done_lines (st_logs st) @ [LogStepDone (stepLabel i n a) (took_ms (envs i))])
      @ map (\<lambda>j. LogStepDone (stepLabel (Suc i + j) n (as ! j)) (took_ms (envs (Suc i + j))))
          [0..<length as]"
    using Cons.IH [OF rest] d2 by (simp add: appendLog_def done_lines_def)
  also have "\<dots> = done_lines (st_logs st)
      @ map (\<lambda>j. LogStepDone (stepLabel (i + j) n ((a # as) ! j)) (took_ms (envs (i + j))))
          [0..<length (a # as)]"
    by (simp add: upt_rec [of 0 "Suc (length as)"] map_Suc_upt [symmetric] del: upt_Suc)
  finally show ?case .
qed









lemma jobSetup_Inr:
  assumes "jobSetup rt cwd request config env = Inr (ctx, prepared, st0)"
  shows "ctx_deadline ctx = env_startedAt env + req_timeoutMs request"
    and "done_lines (st_logs st0) = []"
    and "shots st0 = ([], [])"
    and "st_calls st0 = []"
    and "ctx_jobId ctx = env_jobId env"
    and "ctx_config ctx = config"
    and "prepared = \<lparr>setup_launchProxy = launchProxy request,
                setup_context = newContextOptions request (co_storageState (setup_context prepared)),
                setup_blockedTypes = blockedTypes request,
                setup_defaultTimeout = min 30000 (req_timeoutMs request)\<rparr>"
  using assms
  by (auto simp: jobSetup_def Let_def initial_state_def appendLog_def done_lines_def shots_def
      newContextOptions_def
      split: sum.splits option.splits prod.splits if_splits)

lemmas setup_eval =
  jobSetup_def initial_state_def ensureJobDirectories_def validateJobId_def UUID_REGEX_def
  hex_char_def resolveInsideRoot_def path_resolve_def normalize_step_def startsWith_def
  andThen_def orDefault_def demo_config_def demo_env_def demo_request_def launchProxy_def
  newContextOptions_def blockedTypes_def

lemmas step_eval =
  executeAction_def ensureTimeRemaining_def resolveStepTimeout_def withStepTimeout_def
  callPage_def appendLog_def stepLabel_def show_nat.simps demo_step_def orDefault_def
  normalizeActionError_def

lemma demo_setup:
  "jobSetup plain_runtime ''/app'' (demo_request as) demo_config (demo_env steps)
     = Inr (\<lparr>ctx_runtime = plain_runtime, ctx_cwd = ''/app'', ctx_config = demo_config,
             ctx_jobId = ''123e4567-e89b-42d3-a456-426614174000'', ctx_deadline = 6000,
             ctx_jobOutputDir = ''/app/output/123e4567-e89b-42d3-a456-426614174000'',
             ctx_jobTmpDir = ''/app/tmp/123e4567-e89b-42d3-a456-426614174000''\<rparr>,
            \<lparr>setup_launchProxy = None,
             setup_context = \<lparr>co_storageState = None,
               co_viewport = \<lparr>vp_width = 1280, vp_height = 800\<rparr>,
               co_userAgent = DEFAULT_USER_AGENT, co_bypassCSP = True, co_proxy = None\<rparr>,
             setup_blockedTypes = None, setup_defaultTimeout = 5000\<rparr>,
            \<lparr>st_logs = [LogJobStart ''123e4567-e89b-42d3-a456-426614174000'' (length as) None 5000],
             st_outputs = \<lparr>out_artifacts = [], out_extracted = Map.empty, out_storage = []\<rparr>,
             st_outputFiles = [], st_tmpFiles = Map.empty, st_calls = []\<rparr>)"
  by (simp add: setup_eval)







lemma normalize_plain:
  "list_all plain_segment segs \<Longrightarrow>
     foldl normalize_step acc (split_on CHR ''/'' (join ''/'' segs @ ''/'')) = acc @ segs"
proof (induction "''/''" segs arbitrary: acc rule: join.induct)
  case 1
  show ?case by (simp add: normalize_step_def)
next
  case (2 x)
  then have "split_on CHR ''/'' (x @ ''/'') = [x, []]"
    using split_on_append [of "CHR ''/''" x "[]"] split_on_no_sep [of "CHR ''/''" x]
    by (simp add: plain_segment_def)
  then show ?case using 2 by (simp add: normalize_step_def plain_segment_def)
next
  case (3 x y ys)
  have x: "split_on CHR ''/'' x = [x]"
    using 3(2) split_on_no_sep [of "CHR ''/''" x] by (simp add: plain_segment_def)
  have "split_on CHR ''/'' (join ''/'' (x # y # ys) @ ''/'')
      = split_on CHR ''/'' x @ split_on CHR ''/'' (join ''/'' (y # ys) @ ''/'')"
    using split_on_append [of "CHR ''/''" x "join ''/'' (y # ys) @ ''/''"] by simp
  then show ?case
    using 3(1) [of "acc @ [x]"] 3(2) x by (simp add: normalize_step_def plain_segment_def)
qed

lemma path_resolve_absolute:
  assumes "list_all plain_segment segs"
  shows "path_resolve cwd [CHR ''/'' # join ''/'' segs] = CHR ''/'' # join ''/'' segs"
proof -
  have "resolve_concat cwd (rev [CHR ''/'' # join ''/'' segs]) []
      = CHR ''/'' # (join ''/'' segs @ ''/'')"
    by simp
  moreover have "foldl normalize_step [] (split_on CHR ''/'' (CHR ''/'' # (join ''/'' segs @ ''/'')))
      = segs"
    using normalize_plain [OF assms, of "[]"] by (simp add: normalize_step_def)
  ultimately show ?thesis
    by (simp add: path_resolve_def)
qed

lemmas parse_eval =
  parseAction_def normalizeActionObject_def requireObject_def andThen_def
  toString_def toNumber_def ACTION_NAMES_def parseRunRequestBody_def parseOptionalSession_def
  parseTimeoutMs_def resolveActionsArray_def show_nat.simps parsePositiveInteger_def
  assertOnlyAllowedKeys_def requireHttpUrl_def requireNonEmptyString_def plain_runtime_def
  plain_url_def scheme_char_def safe_char_def toLowerCase_def lower_char_def trim_def
  js_whitespace_def assertAllowedDomain_def parseOptionalEnum_def parseOptionalBoolean_def

lemma demo_parse:
  "parseRunRequestBody plain_runtime (Some demo_body)
       \<lparr>opt_maxActions = 10, opt_defaultTimeoutMs = 30000, opt_allowDomains = []\<rparr>
     = Inr (demo_request [Goto ''https://example.com'' None, Screenshot ''home'' None])"
  by (simp add: demo_body_def demo_request_def parse_eval)

section \<open>Properties\<close>

text \<open>
  C1. The validator does not know the action \<^verbatim>\<open>evaluate\<close>: \<open>ACTION_NAMES\<close> has no such
  entry, so a step \<^verbatim>\<open>{action: "evaluate", ...}\<close> is refused as an invalid action, in the
  short form too, and a request that holds one is refused as a whole.
\<close>

theorem parseAction_evaluate_rejected:
  "parseAction rt (JObj ((''action'', JStr ''evaluate'') # rest)) index allowDomains
     = Inl (PlaywrightHttpError 400
         (ActionInvalid (''actions['' @ show_nat index @ '']'') ''evaluate''))
 \<and> parseAction rt (JObj [(''evaluate'', JObj rest)]) index allowDomains
     = Inl (PlaywrightHttpError 400
         (ShortActionInvalid (''actions['' @ show_nat index @ '']'') ''evaluate''))
 \<and> parseRunRequestBody plain_runtime
       (Some (JObj [(''actions'',
          JArr [JObj [(''action'', JStr ''evaluate''), (''script'', JStr ''() => 1'')]])]))
       \<lparr>opt_maxActions = 10, opt_defaultTimeoutMs = 30000, opt_allowDomains = []\<rparr>
     = Inl (PlaywrightHttpError 400 (ActionInvalid ''actions[0]'' ''evaluate''))"
  by (simp add: parseAction_def normalizeActionObject_def requireObject_def andThen_def
      toString_def ACTION_NAMES_def parseRunRequestBody_def parseOptionalSession_def
      parseTimeoutMs_def resolveActionsArray_def show_nat.simps)

text \<open>
  C2, as amended. A download that reaches the streaming stage (the URL is allowed, the
  response is a success with an image content type, no declared length over the limit, a
  body) and whose chunks add up to more than \<open>maxBytes \<ge> 0\<close> fails with the size-limit
  error of status 400, with or without a length header. The destination file is not
  removed by the function: it is still in the directory when the function returns, holding
  the chunks that came before the limit was crossed.
\<close>

theorem downloadImageFromUrl_size_limit:
  assumes "assertAllowedDomain newURL (dl_url options) (dl_allowDomains options)
             ''uploadFromUrl.url'' = Inr ()"
    and "resp_ok response"
    and "startsWith (responseContentType response) ''image/''"
    and "\<not> declaredTooLarge response (dl_maxBytes options)"
    and "resp_body response = Some body"
    and "0 \<le> dl_maxBytes options"
    and "dl_maxBytes options < int (sum_list (chunks body))"
  shows "\<exists>dir' written.
      downloadImageFromUrl newURL dir options (FetchResponse response)
        = (Inl (Http (PlaywrightHttpError 400 (SizeLimit (dl_maxBytes options)))), dir')
    \<and> dir' (createSafeFileName newURL (dl_url options)
               (mapImageExtension (responseContentType response))) = Some written"
proof -
  obtain total written where lc:
    "limitAndCount (dl_maxBytes options) (chunks body) 0 0 = (True, total, written)"
    "dl_maxBytes options < int total"
    using limitAndCount_exceeds [of 0 "dl_maxBytes options" "chunks body" 0] assms(6,7) by auto
  then have "total \<noteq> 0" using assms(6) by auto
  then show ?thesis
    using assms(1-5) lc by (simp add: downloadImageFromUrl_def Let_def)
qed

theorem downloadImageFromUrl_size_limit_witness:
  "\<exists>dir' written.
      downloadImageFromUrl plain_url Map.empty photo_options (FetchResponse photo_response)
        = (Inl (Http (PlaywrightHttpError 400 (SizeLimit 10))), dir')
    \<and> dir' ''photo.jpg'' = Some written"
proof -
  have "createSafeFileName plain_url (dl_url photo_options)
          (mapImageExtension (responseContentType photo_response)) = ''photo.jpg''"
    by (simp add: download_eval)
  moreover have "dl_maxBytes photo_options = 10"
    by (simp add: photo_options_def)
  ultimately show ?thesis
    using downloadImageFromUrl_size_limit
      [of plain_url photo_options photo_response "\<lparr>chunks = [8, 8], stream_error = None\<rparr>"
        Map.empty]
    by (simp add: download_eval)
qed

text \<open>
  The claim C2 as stated fails: after 16 bytes were streamed against a limit of 10, the
  call has failed with the size-limit error and the file \<^verbatim>\<open>photo.jpg\<close> is still in the
  destination directory, with the 8 bytes of the first chunk.
\<close>

theorem downloadImageFromUrl_partial_file_counterexample:
  "downloadImageFromUrl plain_url Map.empty photo_options (FetchResponse photo_response)
     = (Inl (Http (PlaywrightHttpError 400 (SizeLimit 10))), [''photo.jpg'' \<mapsto> 8])"
  by (simp add: download_eval)

text \<open>
  C3. With a remaining budget \<open>d - t > 0\<close>, \<open>resolveStepTimeout\<close> returns \<open>min r (d - t)\<close>
  for a requested timeout \<open>r \<ge> 1\<close> and \<open>d - t\<close> with no request, so the effective timeout
  never exceeds the remaining budget. With \<open>d - t \<le> 0\<close>, \<open>resolveStepTimeout\<close> and
  \<open>ensureTimeRemaining\<close> both throw the total-timeout error of status 408, and
  \<open>executeAction\<close>, which starts with \<open>ensureTimeRemaining\<close>, throws it with the state as
  it was: no call is made on the browser.
\<close>

theorem resolveStepTimeout_effective:
  "(0 < d - t \<longrightarrow>
      (\<forall>r. 1 \<le> r \<longrightarrow> resolveStepTimeout d t (Some r) = Inr (min r (d - t)))
    \<and> resolveStepTimeout d t None = Inr (d - t)
    \<and> (\<forall>req v. resolveStepTimeout d t req = Inr v \<longrightarrow> v \<le> d - t))
 \<and> (d - t \<le> 0 \<longrightarrow>
      (\<forall>req. resolveStepTimeout d t req = Inl (PlaywrightHttpError 408 TotalTimeoutReached))
    \<and> (\<forall>a. ensureTimeRemaining d t a = Inl (PlaywrightHttpError 408 (TotalTimeoutBefore a)))
    \<and> (\<forall>ctx env a st. ctx_deadline ctx = d \<and> now_ensure env = t \<longrightarrow>
          executeAction ctx env a st
            = Inl (Http (PlaywrightHttpError 408 (TotalTimeoutBefore (action_tag a))), st)))"
  by (auto simp: resolveStepTimeout_def ensureTimeRemaining_def executeAction_def Let_def
      split: option.splits)

theorem resolveStepTimeout_effective_witness:
  "resolveStepTimeout 5000 1000 (Some 30000) = Inr 4000
 \<and> resolveStepTimeout 5000 1000 (Some 250) = Inr 250
 \<and> resolveStepTimeout 5000 1000 None = Inr 4000
 \<and> resolveStepTimeout 5000 5000 (Some 250) = Inl (PlaywrightHttpError 408 TotalTimeoutReached)
 \<and> ensureTimeRemaining 5000 6000 ''goto''
      = Inl (PlaywrightHttpError 408 (TotalTimeoutBefore ''goto''))"
  using resolveStepTimeout_effective [of 5000 1000] resolveStepTimeout_effective [of 5000 5000]
    resolveStepTimeout_effective [of 5000 6000]
  by simp

text \<open>
  C4, as amended. A string that the URL constructor refuses is rejected with the
  invalid-URL error of its field, which is not the domain-blocked error, when the allowlist
  is not empty. With an empty allowlist \<open>assertAllowedDomain\<close> returns before it parses and
  accepts the string.
\<close>

theorem assertAllowedDomain_malformed:
  "newURL u = None \<longrightarrow>
     (ds \<noteq> [] \<longrightarrow> assertAllowedDomain newURL u ds f = Inl (PlaywrightHttpError 400 (UrlInvalid f)))
   \<and> assertAllowedDomain newURL u [] f = Inr ()
   \<and> UrlInvalid f \<noteq> DomainBlocked f ds"
  by (simp add: assertAllowedDomain_def)

theorem assertAllowedDomain_malformed_witness:
  "plain_url ''not a url'' = None
 \<and> assertAllowedDomain plain_url ''not a url'' [''example.com''] ''actions[0].url''
      = Inl (PlaywrightHttpError 400 (UrlInvalid ''actions[0].url''))"
  using assertAllowedDomain_malformed
    [of plain_url "''not a url''" "[''example.com'']" "''actions[0].url''"]
  by (simp add: plain_url_def)

text \<open>
  The claim C4 as stated fails at the empty allowlist: the unparsable string is accepted.
\<close>

theorem assertAllowedDomain_malformed_counterexample:
  "plain_url ''not a url'' = None
 \<and> assertAllowedDomain plain_url ''not a url'' [] ''actions[0].url'' = Inr ()"
  by (simp add: plain_url_def assertAllowedDomain_def)

text \<open>
  C5, as amended. \<open>validateSessionName\<close> trims the session before it tests the pattern.
  When the trimmed session matches \<^verbatim>\<open>[A-Za-z0-9._-]{1,64}\<close> and the storage root does
  not resolve to the file system root, \<open>getSessionStatePath\<close> returns the resolved root,
  a separator, the trimmed session and \<^verbatim>\<open>.json\<close>: a direct child of the root, not the
  root and not outside it. When the trimmed session does not match, it throws a 400 error.
\<close>

theorem getSessionStatePath_inside_root:
  "(session_regex (trim session) \<and> path_resolve cwd [storageDir] \<noteq> ''/'' \<longrightarrow>
      getSessionStatePath cwd storageDir session
        = Inr (path_resolve cwd [storageDir] @ ''/'' @ trim session @ ''.json'')
    \<and> plain_segment (trim session @ ''.json''))
 \<and> (\<not> session_regex (trim session) \<longrightarrow>
      (\<exists>m. getSessionStatePath cwd storageDir session = Inl (PlaywrightHttpError 400 m)))"
proof (intro conjI impI)
  assume a: "session_regex (trim session) \<and> path_resolve cwd [storageDir] \<noteq> ''/''"
  then have ne: "trim session \<noteq> []" by (auto simp: session_regex_def)
  have v: "validateSessionName (Some (JStr session)) ''session'' = Inr (trim session)"
    using a ne by (simp add: validateSessionName_def)
  show "plain_segment (trim session @ ''.json'')"
    using a session_file_plain by blast
  then show "getSessionStatePath cwd storageDir session
        = Inr (path_resolve cwd [storageDir] @ ''/'' @ trim session @ ''.json'')"
    using path_resolve_child [of "trim session @ ''.json''" cwd storageDir] a v
    by (simp add: getSessionStatePath_def resolveInsideRoot_def startsWith_def)
next
  assume "\<not> session_regex (trim session)"
  then show "\<exists>m. getSessionStatePath cwd storageDir session = Inl (PlaywrightHttpError 400 m)"
    by (simp add: getSessionStatePath_def validateSessionName_def)
qed

theorem getSessionStatePath_inside_root_witness:
  "getSessionStatePath ''/app'' ''./storageStates'' ''x-main''
     = Inr ''/app/storageStates/x-main.json''
 \<and> (\<exists>m. getSessionStatePath ''/app'' ''./storageStates'' ''../x''
        = Inl (PlaywrightHttpError 400 m))"
proof -
  have 1: "session_regex (trim ''x-main'')" "\<not> session_regex (trim ''../x'')"
    by (simp_all add: session_regex_def trim_def js_whitespace_def safe_char_def)
  have 2: "path_resolve ''/app'' [''./storageStates''] = ''/app/storageStates''"
    by (simp add: path_resolve_def normalize_step_def)
  have 3: "trim ''x-main'' = ''x-main''"
    by (simp add: trim_def js_whitespace_def)
  show ?thesis
    using getSessionStatePath_inside_root [of "''x-main''" "''/app''" "''./storageStates''"]
      getSessionStatePath_inside_root [of "''../x''" "''/app''" "''./storageStates''"] 1 2 3
    by simp
qed

text \<open>
  The claim C5 as stated fails in both halves: a session that does not match the pattern
  but whose trimmed form does is given a path, and under a storage directory that
  resolves to the file system root a matching session is refused.
\<close>

theorem getSessionStatePath_counterexample:
  "\<not> session_regex '' x-main''
 \<and> getSessionStatePath ''/app'' ''./storageStates'' '' x-main''
      = Inr ''/app/storageStates/x-main.json''
 \<and> session_regex ''x-main''
 \<and> getSessionStatePath ''/app'' ''/'' ''x-main''
      = Inl (PlaywrightHttpError 400 (InvalidAccess ''session file''))"
  by (simp add: getSessionStatePath_def validateSessionName_def resolveInsideRoot_def
      startsWith_def path_resolve_def normalize_step_def trim_def js_whitespace_def
      session_regex_def safe_char_def)

text \<open>
  C6. Take a job that has reached its loop, whose steps \<open>0..k-1\<close> have succeeded and whose
  deadline has passed when \<open>ensureTimeRemaining\<close> reads the clock for step \<open>k\<close>. The job
  fails, with the total-timeout error of status 408 for the action of step \<open>k\<close>; the
  completion lines of its logs are those of the steps \<open>0..k-1\<close>, in order, and no other; and
  no call is made on the browser for step \<open>k\<close>.
\<close>

theorem runPlaywrightJob_deadline_logs:
  assumes init: "jobSetup rt cwd request config env = Inr (ctx, prepared, st0)"
    and k: "k < length (req_actions request)"
    and prefix: "runSteps ctx (env_steps env) (length (req_actions request)) 0
                   (take k (req_actions request)) st0 = Inr stk"
    and late: "env_startedAt env + req_timeoutMs request - now_ensure (env_steps env k) \<le> 0"
  shows "\<exists>logs final.
      runPlaywrightJob rt cwd request config env
        = (PlaywrightJobError (Inl (TotalTimeoutBefore (action_tag (req_actions request ! k)))) 408
             (env_jobId env) (env_finishedAt env - env_startedAt env) logs, final)
    \<and> done_lines logs
        = map (\<lambda>i. LogStepDone (stepLabel i (length (req_actions request)) (req_actions request ! i))
                     (took_ms (env_steps env i))) [0..<k]
    \<and> st_calls final = st_calls stk"
proof -
  let ?as = "req_actions request" and ?n = "length (req_actions request)"
  let ?a = "req_actions request ! k"
  let ?e = "PlaywrightHttpError 408 (TotalTimeoutBefore (action_tag ?a))"
  let ?st1 = "appendLog (LogStepStart (stepLabel k ?n ?a)) stk"
  have split: "?as = take k ?as @ ?a # drop (Suc k) ?as"
    using k by (simp add: id_take_nth_drop [symmetric])
  have len: "length (take k ?as) = k" using k by simp
  have "ensureTimeRemaining (ctx_deadline ctx) (now_ensure (env_steps env k)) (action_tag ?a)
          = Inl ?e"
    using late jobSetup_Inr(1) [OF init] by (simp add: ensureTimeRemaining_def)
  then have "executeAction ctx (env_steps env k) ?a ?st1 = Inl (Http ?e, ?st1)"
    by (simp add: executeAction_def)
  then have stepk: "runSteps ctx (env_steps env) ?n k (?a # drop (Suc k) ?as) stk = Inl (?e, ?st1)"
    by (simp add: normalizeActionError_def)
  have "runSteps ctx (env_steps env) ?n 0 (take k ?as @ ?a # drop (Suc k) ?as) st0 = Inl (?e, ?st1)"
    using prefix stepk len by (simp add: runSteps_append del: runSteps.simps)
  then have run: "runSteps ctx (env_steps env) ?n 0 ?as st0 = Inl (?e, ?st1)"
    using split by simp
  have "done_lines (st_logs stk)
      = map (\<lambda>j. LogStepDone (stepLabel j ?n (take k ?as ! j)) (took_ms (env_steps env j))) [0..<k]"
    using runSteps_done [OF prefix] jobSetup_Inr(2) [OF init] len by simp
  also have "\<dots> = map (\<lambda>j. LogStepDone (stepLabel j ?n (?as ! j)) (took_ms (env_steps env j))) [0..<k]"
    by simp
  finally have d: "done_lines (st_logs stk)
      = map (\<lambda>j. LogStepDone (stepLabel j ?n (?as ! j)) (took_ms (env_steps env j))) [0..<k]" .
  show ?thesis
    using init run d
    by (simp add: runPlaywrightJob_def jobFailure_def Let_def resolveStatusCode_def
        getErrorMessage_def appendLog_def done_lines_def)
qed


theorem runPlaywrightJob_deadline_logs_witness:
  "\<exists>logs final.
      runPlaywrightJob plain_runtime ''/app''
          (demo_request [Goto ''https://example.com'' None, Screenshot ''home'' None])
          demo_config (demo_env late_steps)
        = (PlaywrightJobError (Inl (TotalTimeoutBefore ''screenshot'')) 408
             ''123e4567-e89b-42d3-a456-426614174000'' 7000 logs, final)
    \<and> done_lines logs = [LogStepDone ''1/2 goto'' 100]
    \<and> st_calls final = [PageGoto ''https://example.com'' ''domcontentloaded'' 4000]"
proof -
  let ?as = "[Goto ''https://example.com'' None, Screenshot ''home'' None]"
  let ?req = "demo_request ?as" and ?env = "demo_env late_steps"
  let ?ctx = "\<lparr>ctx_runtime = plain_runtime, ctx_cwd = ''/app'', ctx_config = demo_config,
             ctx_jobId = ''123e4567-e89b-42d3-a456-426614174000'', ctx_deadline = 6000,
             ctx_jobOutputDir = ''/app/output/123e4567-e89b-42d3-a456-426614174000'',
             ctx_jobTmpDir = ''/app/tmp/123e4567-e89b-42d3-a456-426614174000''\<rparr>"
  let ?st0 = "\<lparr>st_logs = [LogJobStart ''123e4567-e89b-42d3-a456-426614174000'' (length ?as) None 5000],
             st_outputs = \<lparr>out_artifacts = [], out_extracted = Map.empty, out_storage = []\<rparr>,
             st_outputFiles = [], st_tmpFiles = Map.empty, st_calls = []\<rparr>"
  let ?stk = "\<lparr>st_logs = [LogJobStart ''123e4567-e89b-42d3-a456-426614174000'' 2 None 5000,
                LogStepStart ''1/2 goto'', LogStepDone ''1/2 goto'' 100],
             st_outputs = \<lparr>out_artifacts = [], out_extracted = Map.empty, out_storage = []\<rparr>,
             st_outputFiles = [], st_tmpFiles = Map.empty,
             st_calls = [PageGoto ''https://example.com'' ''domcontentloaded'' 4000]\<rparr>"
  have r: "req_actions ?req = ?as" "req_timeoutMs ?req = 5000"
    by (simp_all add: demo_request_def)
  have e: "env_steps ?env = late_steps" "env_startedAt ?env = 1000" "env_finishedAt ?env = 8000"
    "env_jobId ?env = ''123e4567-e89b-42d3-a456-426614174000''"
    by (simp_all add: demo_env_def)
  have k: "1 < length (req_actions ?req)"
    by (simp add: r)
  have p: "runSteps ?ctx (env_steps ?env) (length (req_actions ?req)) 0
             (take 1 (req_actions ?req)) ?st0 = Inr ?stk"
    by (simp add: r e step_eval late_steps_def)
  have l: "env_startedAt ?env + req_timeoutMs ?req - now_ensure (env_steps ?env 1) \<le> 0"
    by (simp add: r e late_steps_def demo_step_def)
  show ?thesis
    using runPlaywrightJob_deadline_logs [OF demo_setup [of ?as late_steps] k p l]
    by (simp add: r e stepLabel_def show_nat.simps late_steps_def demo_step_def)
qed

text \<open>
  C7. With the allowlist \<^verbatim>\<open>["example.com"]\<close>, a URL is permitted exactly when its host
  name, in lower case, is \<^verbatim>\<open>example.com\<close> or ends with \<^verbatim>\<open>.example.com\<close>, and is rejected
  with the domain-blocked error otherwise. So, for a URL constructor that reads the host
  names of the four URLs of the claim, the first two are permitted and the last two are
  rejected.
\<close>

theorem assertAllowedDomain_example_com:
  "(\<forall>u p. newURL u = Some p \<longrightarrow>
      assertAllowedDomain newURL u [''example.com''] f =
        (if toLowerCase (hostname p) = ''example.com''
            \<or> endsWith (toLowerCase (hostname p)) ''.example.com''
         then Inr ()
         else Inl (PlaywrightHttpError 400 (DomainBlocked f [''example.com'']))))
 \<and> (map_option hostname (newURL ''https://example.com/x'') = Some ''example.com''
      \<longrightarrow> assertAllowedDomain newURL ''https://example.com/x'' [''example.com''] f = Inr ())
 \<and> (map_option hostname (newURL ''https://sub.example.com/x'') = Some ''sub.example.com''
      \<longrightarrow> assertAllowedDomain newURL ''https://sub.example.com/x'' [''example.com''] f = Inr ())
 \<and> (map_option hostname (newURL ''https://notexample.com/x'') = Some ''notexample.com''
      \<longrightarrow> assertAllowedDomain newURL ''https://notexample.com/x'' [''example.com''] f
            = Inl (PlaywrightHttpError 400 (DomainBlocked f [''example.com''])))
 \<and> (map_option hostname (newURL ''https://example.com.evil.net/x'') = Some ''example.com.evil.net''
      \<longrightarrow> assertAllowedDomain newURL ''https://example.com.evil.net/x'' [''example.com''] f
            = Inl (PlaywrightHttpError 400 (DomainBlocked f [''example.com''])))"
  by (auto simp: assertAllowedDomain_def Let_def endsWith_def toLowerCase_def lower_char_def)

theorem assertAllowedDomain_example_com_witness:
  "assertAllowedDomain plain_url ''https://example.com/x'' [''example.com''] ''url'' = Inr ()
 \<and> assertAllowedDomain plain_url ''https://sub.example.com/x'' [''example.com''] ''url'' = Inr ()
 \<and> assertAllowedDomain plain_url ''https://notexample.com/x'' [''example.com''] ''url''
      = Inl (PlaywrightHttpError 400 (DomainBlocked ''url'' [''example.com'']))
 \<and> assertAllowedDomain plain_url ''https://example.com.evil.net/x'' [''example.com''] ''url''
      = Inl (PlaywrightHttpError 400 (DomainBlocked ''url'' [''example.com'']))"
proof -
  have h: "map_option hostname (plain_url ''https://example.com/x'') = Some ''example.com''"
    "map_option hostname (plain_url ''https://sub.example.com/x'') = Some ''sub.example.com''"
    "map_option hostname (plain_url ''https://notexample.com/x'') = Some ''notexample.com''"
    "map_option hostname (plain_url ''https://example.com.evil.net/x'')
       = Some ''example.com.evil.net''"
    by (simp_all add: plain_url_def scheme_char_def safe_char_def toLowerCase_def lower_char_def)
  show ?thesis
    using assertAllowedDomain_example_com [of plain_url "''url''"] h by blast
qed





text \<open>
  C9. A request that \<open>parseRunRequestBody\<close> accepts has no proxy, no blocked resource
  types, no user agent and no viewport, whatever the body supplies; so the runner launches
  the browser without proxy, creates the context with the viewport 1280 x 800, the
  built-in user agent and no proxy, and installs no route.
\<close>

theorem parseRunRequestBody_fields_unset:
  "parseRunRequestBody rt body options = Inr r \<Longrightarrow>
     req_proxy r = None \<and> req_blockResources r = None \<and> req_userAgent r = None
   \<and> req_viewport r = None
   \<and> launchProxy r = None
   \<and> newContextOptions r storageState =
        \<lparr>co_storageState = storageState,
         co_viewport = \<lparr>vp_width = 1280, vp_height = 800\<rparr>,
         co_userAgent = DEFAULT_USER_AGENT, co_bypassCSP = True, co_proxy = None\<rparr>
   \<and> blockedTypes r = None"
  by (auto simp: parseRunRequestBody_def andThen_def launchProxy_def newContextOptions_def
      blockedTypes_def orDefault_def split: sum.splits if_splits)

theorem parseRunRequestBody_fields_unset_witness:
  "parseRunRequestBody plain_runtime (Some demo_body)
       \<lparr>opt_maxActions = 10, opt_defaultTimeoutMs = 30000, opt_allowDomains = []\<rparr>
     = Inr (demo_request [Goto ''https://example.com'' None, Screenshot ''home'' None])
 \<and> req_proxy (demo_request [Goto ''https://example.com'' None, Screenshot ''home'' None]) = None
 \<and> req_userAgent (demo_request [Goto ''https://example.com'' None, Screenshot ''home'' None]) = None
 \<and> newContextOptions (demo_request [Goto ''https://example.com'' None, Screenshot ''home'' None]) None =
        \<lparr>co_storageState = None,
         co_viewport = \<lparr>vp_width = 1280, vp_height = 800\<rparr>,
         co_userAgent = DEFAULT_USER_AGENT, co_bypassCSP = True, co_proxy = None\<rparr>"
  using parseRunRequestBody_fields_unset [OF demo_parse, of None] demo_parse
  by simp

text \<open>
  C10. \<open>resolveLocalUploadPath\<close> is \<^verbatim>\<open>path.resolve\<close> of its argument and has no failure: an
  absolute path of plain segments is returned as it is, whatever the working directory,
  so every path of the file system can be named. For an upload step with time remaining,
  the runner refuses the path when it is not a regular file and otherwise attaches the
  resolved path to the input.
\<close>

theorem resolveLocalUploadPath_unconfined:
  "resolveLocalUploadPath cwd p = path_resolve cwd [p]
 \<and> (list_all plain_segment segs \<longrightarrow>
      resolveLocalUploadPath cwd (''/'' @ join ''/'' segs) = ''/'' @ join ''/'' segs)
 \<and> (0 < ctx_deadline ctx - now_ensure env \<and> 0 < ctx_deadline ctx - now_resolve env \<longrightarrow>
      executeAction ctx env (Upload selector p) st =
        (if \<not> stat_isFile env (path_resolve (ctx_cwd ctx) [p])
           then Inl (Http (PlaywrightHttpError 400 (UploadFileNotFound p)), st)
         else callPage env
                (PageSetInputFiles selector (path_resolve (ctx_cwd ctx) [p])
                   (ctx_deadline ctx - now_resolve env))
                st (\<lambda>_ st'. st')))"
  by (simp add: resolveLocalUploadPath_def path_resolve_absolute executeAction_def
      ensureTimeRemaining_def withStepTimeout_def resolveStepTimeout_def)

theorem resolveLocalUploadPath_unconfined_witness:
  "resolveLocalUploadPath ''/app'' ''/etc/passwd'' = ''/etc/passwd''
 \<and> resolveLocalUploadPath ''/app'' ''../etc/passwd'' = ''/etc/passwd''
 \<and> (\<exists>st'. executeAction
        \<lparr>ctx_runtime = plain_runtime, ctx_cwd = ''/app'', ctx_config = demo_config,
         ctx_jobId = ''123e4567-e89b-42d3-a456-426614174000'', ctx_deadline = 6000,
         ctx_jobOutputDir = ''/app/output/123e4567-e89b-42d3-a456-426614174000'',
         ctx_jobTmpDir = ''/app/tmp/123e4567-e89b-42d3-a456-426614174000''\<rparr>
        (demo_step 2000) (Upload ''input'' ''../etc/passwd'')
        \<lparr>st_logs = [], st_outputs = \<lparr>out_artifacts = [], out_extracted = Map.empty, out_storage = []\<rparr>,
         st_outputFiles = [], st_tmpFiles = Map.empty, st_calls = []\<rparr> = Inr st'
      \<and> st_calls st' = [PageSetInputFiles ''input'' ''/etc/passwd'' 4000])"
proof -
  have 1: "list_all plain_segment [''etc'', ''passwd'']"
    by (simp add: plain_segment_def)
  have 2: "path_resolve ''/app'' [''../etc/passwd''] = ''/etc/passwd''"
    by (simp add: path_resolve_def normalize_step_def)
  have 3: "0 < (6000::int) - now_ensure (demo_step 2000)"
    "0 < (6000::int) - now_resolve (demo_step 2000)"
    by (simp_all add: demo_step_def)
  show ?thesis
    using resolveLocalUploadPath_unconfined [of "''/app''" "''../etc/passwd''" "[''etc'', ''passwd'']"
        "\<lparr>ctx_runtime = plain_runtime, ctx_cwd = ''/app'', ctx_config = demo_config,
         ctx_jobId = ''123e4567-e89b-42d3-a456-426614174000'', ctx_deadline = 6000,
         ctx_jobOutputDir = ''/app/output/123e4567-e89b-42d3-a456-426614174000'',
         ctx_jobTmpDir = ''/app/tmp/123e4567-e89b-42d3-a456-426614174000''\<rparr>"
        "demo_step 2000" "''input''"] 1 2 3
    by (simp add: callPage_def demo_step_def)
qed

end
